theory Spec2Isabelle
  imports Main "HOL-Library.Word"
begin

unbundle bit_operations_syntax

section \<open>Results of a command\<close>

text \<open>
  Modelled from the spec: the declaration of \<^verbatim>\<open>CommandResult\<close> (\<^verbatim>\<open>commands.h\<close>) is not among
  the sources. The specification gives it as \<^verbatim>\<open>{ status: 0 | 1, output: string, error: string }\<close>;
  the handlers of \<^verbatim>\<open>commands.cpp\<close> build it as \<^verbatim>\<open>{status, output, error}\<close> in this order and
  \<^verbatim>\<open>shell.cpp\<close> reads the three fields by these names, comparing \<^verbatim>\<open>status\<close> with the
  integers 0 and 1.
\<close>

record CommandResult =
  status :: int
  "output" :: string
  error :: string

definition result :: "int \<Rightarrow> string \<Rightarrow> string \<Rightarrow> CommandResult" where
  "result st out err = \<lparr>status = st, output = out, error = err\<rparr>"

section \<open>The interaction loop's rendering of a result (shell.cpp, main)\<close>

text \<open>
  What one iteration of the loop of \<^verbatim>\<open>main\<close> writes after
  \<^verbatim>\<open>Executor::executeCommand\<close> has returned: the text sent to \<^verbatim>\<open>std::cout\<close> and the
  text sent to \<^verbatim>\<open>std::cerr\<close>.
\<close>

record rendered =
  to_cout :: string
  to_cerr :: string

text \<open>\<^verbatim>\<open>s.rfind(p, 0) == 0\<close>: \<^verbatim>\<open>s\<close> starts with \<^verbatim>\<open>p\<close>.\<close>

definition starts_with :: "string \<Rightarrow> string \<Rightarrow> bool" where
  "starts_with p s = (take (length p) s = p)"

definition NO_NL :: string where
  "NO_NL = ''__NO_NL__''"

definition render :: "CommandResult \<Rightarrow> rendered" where
  "render r =
    (let printNewline0 = False;
         \<comment> \<open>\<^verbatim>\<open>if (result.status == 0) { ... std::cout << result.output; }\<close>\<close>
         (printNewline1, cout1) =
           (if status r = 0 then
              (let pn = (if output r \<noteq> [] then True else printNewline0) in
               if starts_with NO_NL (output r)
               then (False, drop 9 (output r))
               else (pn, output r))
            else (printNewline0, []));
         \<comment> \<open>\<^verbatim>\<open>if (result.status == 1) { ... std::cerr << result.error; }\<close>\<close>
         (printNewline2, cerr2) =
           (if status r = 1 then
              ((if error r \<noteq> [] then True else printNewline1), error r)
            else (printNewline1, []))
     in \<lparr>to_cout = cout1 @ (if printNewline2 then [CHR 0x0A] else []),
         to_cerr = cerr2\<rparr>)"

section \<open>Strings as the handlers use them\<close>

definition NL :: char where
  "NL = CHR 0x0A"

text \<open>\<^verbatim>\<open>Commands::stripTrailingNewline\<close>.\<close>

definition stripTrailingNewline :: "string \<Rightarrow> string" where
  "stripTrailingNewline s = (if s \<noteq> [] \<and> last s = NL then take (length s - 1) s else s)"

text \<open>
  \<^verbatim>\<open>std::to_string\<close> on the unsigned counters (\<^verbatim>\<open>size_t\<close>, \<^verbatim>\<open>nlink_t\<close>, \<^verbatim>\<open>uid_t\<close>) and
  on \<^verbatim>\<open>int\<close>: the decimal digits, with a minus sign for a negative \<^verbatim>\<open>int\<close>.
\<close>

fun digits_of :: "nat \<Rightarrow> string" where
  "digits_of n =
     (if n < 10 then [''0123456789'' ! n]
      else digits_of (n div 10) @ [''0123456789'' ! (n mod 10)])"

declare digits_of.simps [simp del]

definition to_string :: "int \<Rightarrow> string" where
  "to_string i = (if i < 0 then CHR ''-'' # digits_of (nat (- i)) else digits_of (nat i))"

text \<open>
  \<^verbatim>\<open>s.find_last_of(cs)\<close>: the index of the last character of \<^verbatim>\<open>s\<close> that is one of
  \<^verbatim>\<open>cs\<close>; \<^verbatim>\<open>None\<close> stands for \<^verbatim>\<open>std::string::npos\<close>.
\<close>

definition find_last_of :: "string \<Rightarrow> string \<Rightarrow> nat option" where
  "find_last_of cs s =
     (case filter (\<lambda>i. s ! i \<in> set cs) (rev [0..<length s]) of
        [] \<Rightarrow> None
      | i # _ \<Rightarrow> Some i)"

lemma find_last_of_less:
  assumes "find_last_of cs s = Some pos"
  shows "pos < length s"
proof -
  from assms obtain rest where "filter (\<lambda>i. s ! i \<in> set cs) (rev [0..<length s]) = pos # rest"
    by (auto simp: find_last_of_def split: list.splits)
  then have "pos \<in> set (filter (\<lambda>i. s ! i \<in> set cs) (rev [0..<length s]))"
    by (metis list.set_intros(1))
  then show ?thesis by simp
qed

text \<open>The pieces of a text between the occurrences of a separator.\<close>

fun splitc :: "char \<Rightarrow> string \<Rightarrow> string list" where
  "splitc c [] = [[]]"
| "splitc c (x # xs) =
     (if x = c then [] # splitc c xs
      else (case splitc c xs of w # ws \<Rightarrow> (x # w) # ws | [] \<Rightarrow> [[x]]))"

text \<open>\<^verbatim>\<open>a[0] == c\<close> on a \<^verbatim>\<open>std::string\<close>: the empty string reads as its terminator, which is no \<^verbatim>\<open>c\<close>.\<close>

definition first_is :: "char \<Rightarrow> string \<Rightarrow> bool" where
  "first_is c a = (case a of [] \<Rightarrow> False | x # _ \<Rightarrow> x = c)"

text \<open>
  \<^verbatim>\<open>std::stoi(str, nullptr, base)\<close> for the two bases the handlers use (10 and 8), as
  \<^verbatim>\<open>strtol\<close> reads it: leading white space is skipped, one sign is accepted, then the
  longest run of digits of the base is converted and whatever follows is ignored. No
  digit at all throws \<^verbatim>\<open>std::invalid_argument\<close>; a value that does not fit an \<^verbatim>\<open>int\<close>
  throws \<^verbatim>\<open>std::out_of_range\<close>.
\<close>

datatype exn = InvalidArgument | OutOfRange | LogicError

definition is_space :: "char \<Rightarrow> bool" where
  "is_space c = (c \<in> set [CHR '' '', CHR 0x09, CHR 0x0A, CHR 0x0B, CHR 0x0C, CHR 0x0D])"

definition digit_val :: "nat \<Rightarrow> char \<Rightarrow> nat option" where
  "digit_val base c =
     (let v = of_char c - (48::nat)
      in if (48::nat) \<le> of_char c \<and> v < 10 \<and> v < base then Some v else None)"

definition stoi :: "nat \<Rightarrow> string \<Rightarrow> exn + int" where
  "stoi base str =
     (let s1 = dropWhile is_space str;
          neg = first_is (CHR ''-'') s1;
          s2 = (if first_is (CHR ''-'') s1 \<or> first_is (CHR ''+'') s1 then tl s1 else s1);
          ds = takeWhile (\<lambda>c. digit_val base c \<noteq> None) s2;
          v = foldl (\<lambda>a c. a * base + the (digit_val base c)) 0 ds;
          i = (if neg then - int v else int v)
      in if ds = [] then Inl InvalidArgument
         else if i < - (2 ^ 31) \<or> 2 ^ 31 - 1 < i then Inl OutOfRange
         else Inr i)"

section \<open>The operating system and the C library, as the handlers see them\<close>

text \<open>
  The handlers act on the file system through system calls and read a few library
  functions. Neither is code of this program, so they are a parameter of the model: a
  record of functions over a state \<^typ>\<open>'s\<close> (the file system, the working directory, the
  standard input). A call that only reads is a function of the state; a call that can
  change something returns the state that follows. A theorem about a handler holds for
  every such record unless it states what it assumes of it.

  \<^item> A failing call gives the \<^verbatim>\<open>errno\<close> it sets. Only the values the handlers test are
    told apart; \<^verbatim>\<open>Eother n\<close> is any other.
  \<^item> File descriptors are numbers; \<^verbatim>\<open>close\<close> is not modelled, since nothing a handler
    returns depends on it.
  \<^item> \<^verbatim>\<open>os_read_all s fd n\<close> is what the loop \<^verbatim>\<open>while ((k = read(fd, buf, n)) > 0)\<close> is
    handed in state \<^verbatim>\<open>s\<close>: the chunks of the successive calls that returned a positive
    count, and how the last call ended (\<^verbatim>\<open>None\<close> for 0, end of file; an \<^verbatim>\<open>errno\<close> for
    -1). So files are finite here, and a loop that copies reads its source as it was
    when the destination had been opened.
  \<^item> \<^verbatim>\<open>os_readdir s p\<close> is \<^verbatim>\<open>opendir\<close> followed by \<^verbatim>\<open>readdir\<close> until it returns null:
    the names in the order the system gives them, \<^verbatim>\<open>.\<close> and \<^verbatim>\<open>..\<close> included.
  \<^item> \<^verbatim>\<open>os_write\<close> gives the count \<^verbatim>\<open>write\<close> returned (-1 for a failure) and the value of
    \<^verbatim>\<open>errno\<close> after the call, which the handler prints when the count is short.
  \<^item> \<^verbatim>\<open>os_regex icase pattern\<close> is the construction of a \<^verbatim>\<open>std::regex\<close> with the
    ECMAScript grammar: \<^verbatim>\<open>None\<close> when the constructor throws, else the search
    function, which gives the text of the first match in a line (\<^verbatim>\<open>match.str()\<close>).
\<close>

datatype errno = EPERM | ENOENT | EACCES | EEXIST | EXDEV | ENOTDIR | ENOTEMPTY | Eother nat

record stat_info =
  st_mode :: "32 word"
  st_nlink :: nat
  st_uid :: nat
  st_gid :: nat
  st_size :: int
  st_mtime :: int

record 's os =
  os_strerror :: "errno \<Rightarrow> string"
  os_stat :: "'s \<Rightarrow> string \<Rightarrow> errno + stat_info"
  os_readdir :: "'s \<Rightarrow> string \<Rightarrow> errno + string list"
  os_open_rd :: "'s \<Rightarrow> string \<Rightarrow> errno + nat"
  os_read_all :: "'s \<Rightarrow> nat \<Rightarrow> nat \<Rightarrow> string list \<times> errno option"
  os_open_wr :: "'s \<Rightarrow> string \<Rightarrow> bool \<Rightarrow> (errno + nat) \<times> 's"
  os_write :: "'s \<Rightarrow> nat \<Rightarrow> string \<Rightarrow> (int \<times> errno) \<times> 's"
  os_mkdir :: "'s \<Rightarrow> string \<Rightarrow> errno option \<times> 's"
  os_rmdir :: "'s \<Rightarrow> string \<Rightarrow> errno option \<times> 's"
  os_unlink :: "'s \<Rightarrow> string \<Rightarrow> errno option \<times> 's"
  os_rename :: "'s \<Rightarrow> string \<Rightarrow> string \<Rightarrow> errno option \<times> 's"
  os_chmod :: "'s \<Rightarrow> string \<Rightarrow> 32 word \<Rightarrow> errno option \<times> 's"
  os_chown :: "'s \<Rightarrow> string \<Rightarrow> nat \<Rightarrow> errno option \<times> 's"
  os_utime :: "'s \<Rightarrow> string \<Rightarrow> int \<Rightarrow> int \<Rightarrow> errno option \<times> 's"
  os_time :: "'s \<Rightarrow> int"
  os_chdir :: "'s \<Rightarrow> string option \<Rightarrow> errno option \<times> 's"
  os_getcwd :: "'s \<Rightarrow> string option"
  os_getenv_HOME :: "'s \<Rightarrow> string option"
  os_environ :: "'s \<Rightarrow> string list"
  os_getpwnam :: "'s \<Rightarrow> string \<Rightarrow> nat option"
  os_getpwuid :: "'s \<Rightarrow> nat \<Rightarrow> string option"
  os_getgrgid :: "'s \<Rightarrow> nat \<Rightarrow> string option"
  os_strftime :: "int \<Rightarrow> string"
  os_cin_ignore :: "'s \<Rightarrow> 's"
  os_regex :: "bool \<Rightarrow> string \<Rightarrow> (string \<Rightarrow> string option) option"

text \<open>
  A handler returns a result, or leaves by an exception that \<^verbatim>\<open>main\<close> catches, or ends
  the process (\<^verbatim>\<open>std::exit\<close>).
\<close>

datatype outcome = Returned CommandResult | Threw exn | Exited int

text \<open>\<^verbatim>\<open>S_ISDIR(m)\<close>: \<^verbatim>\<open>(m & S_IFMT) == S_IFDIR\<close>, with the values of Linux.\<close>

definition S_ISDIR :: "32 word \<Rightarrow> bool" where
  "S_ISDIR m = (m AND 0xF000 = 0x4000)"

text \<open>\<^verbatim>\<open>stat(p, &st) == 0 && S_ISDIR(st.st_mode)\<close>.\<close>

definition stat_is_dir :: "'s os \<Rightarrow> 's \<Rightarrow> string \<Rightarrow> bool" where
  "stat_is_dir os s p = (case os_stat os s p of Inl _ \<Rightarrow> False | Inr st \<Rightarrow> S_ISDIR (st_mode st))"

text \<open>\<^verbatim>\<open>Commands::isFileEmpty\<close>.\<close>

definition isFileEmpty :: "'s os \<Rightarrow> 's \<Rightarrow> string \<Rightarrow> bool" where
  "isFileEmpty os s filename =
     (case os_stat os s filename of Inl _ \<Rightarrow> False | Inr st \<Rightarrow> st_size st = 0)"

section \<open>wc (Commands::wcCommand)\<close>

text \<open>
  The counters of the scan of one file. They are \<^verbatim>\<open>size_t\<close> in the source; a file has
  fewer than \<^verbatim>\<open>2^64\<close> bytes, so they are natural numbers here.
\<close>

record wc_state =
  wc_lines :: nat
  wc_words :: nat
  wc_chars :: nat
  inWord :: bool
  lastCharWasNewline :: bool

definition wc_init :: wc_state where
  "wc_init = \<lparr>wc_lines = 0, wc_words = 0, wc_chars = 0, inWord = False, lastCharWasNewline = True\<rparr>"

text \<open>The body of the loop over the bytes of a chunk.\<close>

definition wc_char :: "char \<Rightarrow> wc_state \<Rightarrow> wc_state" where
  "wc_char c st =
     (let st1 = st\<lparr>wc_chars := wc_chars st + 1\<rparr>;
          st2 = (if c = NL then st1\<lparr>wc_lines := wc_lines st1 + 1, lastCharWasNewline := True\<rparr>
                 else st1\<lparr>lastCharWasNewline := False\<rparr>)
      in if c = CHR '' '' \<or> c = CHR 0x09 \<or> c = NL \<or> c = CHR 0x0D then st2\<lparr>inWord := False\<rparr>
         else if \<not> inWord st2 then st2\<lparr>wc_words := wc_words st2 + 1, inWord := True\<rparr>
         else st2)"

text \<open>The read loop, and the correction of the line count that follows it.\<close>

definition wc_scan :: "string list \<Rightarrow> wc_state" where
  "wc_scan chunks =
     (let st = fold (\<lambda>chunk st. fold wc_char chunk st) chunks wc_init
      in if \<not> lastCharWasNewline st then st\<lparr>wc_lines := wc_lines st + 1\<rparr> else st)"

text \<open>The loop over the arguments that sets the three flags and collects the files.\<close>

definition wc_arg :: "string \<Rightarrow> bool \<times> bool \<times> bool \<times> string list \<Rightarrow> bool \<times> bool \<times> bool \<times> string list" where
  "wc_arg arg st =
     (case st of (countLines, countWords, countChars, files) \<Rightarrow>
        if arg = ''-l'' then (True, countWords, countChars, files)
        else if arg = ''-w'' then (countLines, True, countChars, files)
        else if arg = ''-c'' then (countLines, countWords, True, files)
        else (countLines, countWords, countChars, files @ [arg]))"

text \<open>The text of one line of output: the counts asked for, then the name.\<close>

definition wc_row :: "bool \<Rightarrow> bool \<Rightarrow> bool \<Rightarrow> string \<Rightarrow> string \<Rightarrow> string \<Rightarrow> string \<Rightarrow> string" where
  "wc_row countLines countWords countChars l w c filename =
     (if countLines then l @ '' '' else []) @ (if countWords then w @ '' '' else [])
       @ (if countChars then c @ '' '' else []) @ filename @ [NL]"

text \<open>The loop over the files; \<^verbatim>\<open>out\<close> is the output gathered so far.\<close>

fun wc_files :: "'s os \<Rightarrow> 's \<Rightarrow> bool \<Rightarrow> bool \<Rightarrow> bool \<Rightarrow> string list \<Rightarrow> string \<Rightarrow> CommandResult" where
  "wc_files os s cl cw cc [] out = result 0 (stripTrailingNewline out) []"
| "wc_files os s cl cw cc (filename # rest) out =
     (if isFileEmpty os s filename
      then wc_files os s cl cw cc rest (out @ wc_row cl cw cc ''0'' ''0'' ''0'' filename)
      else (case os_open_rd os s filename of
              Inl e \<Rightarrow> result 1 [] (''wc: cannot open file '' @ [CHR 0x27] @ filename @ [CHR 0x27] @ '': '' @ os_strerror os e)
            | Inr fd \<Rightarrow>
                (case os_read_all os s fd 4096 of
                   (chunks, Some e) \<Rightarrow>
                     result 1 [] (''wc: error reading file '' @ [CHR 0x27] @ filename @ [CHR 0x27] @ '': '' @ os_strerror os e)
                 | (chunks, None) \<Rightarrow>
                     (let st = wc_scan chunks
                      in wc_files os s cl cw cc rest
                           (out @ wc_row cl cw cc (to_string (int (wc_lines st))) (to_string (int (wc_words st)))
                                    (to_string (int (wc_chars st))) filename)))))"

definition wcCommand :: "'s os \<Rightarrow> 's \<Rightarrow> string list \<Rightarrow> outcome \<times> 's" where
  "wcCommand os s args =
     (case fold wc_arg args (False, False, False, []) of
        (cl, cw, cc, files) \<Rightarrow>
          (let none = (\<not> cl \<and> \<not> cw \<and> \<not> cc);
               countLines = (cl \<or> none); countWords = (cw \<or> none); countChars = (cc \<or> none)
           in if files = [] then (Returned (result 1 [] ''wc: missing file operand''), s)
              else (Returned (wc_files os s countLines countWords countChars files []), s)))"

section \<open>rmdir (Commands::rmdirCommand, Commands::formatRmdirErrorMsg)\<close>

text \<open>
  \<^verbatim>\<open>formatRmdirErrorMsg\<close> reads the global \<^verbatim>\<open>errno\<close> that the failed \<^verbatim>\<open>rmdir\<close> has just
  set; here it is handed over.
\<close>

definition formatRmdirErrorMsg :: "'s os \<Rightarrow> errno \<Rightarrow> string \<Rightarrow> string" where
  "formatRmdirErrorMsg os e path =
     ''rmdir: failed to remove '' @ [CHR 0x27] @ path @ [CHR 0x27] @ '': '' @
       (case e of
          ENOTEMPTY \<Rightarrow> ''directory not empty''
        | EEXIST \<Rightarrow> ''directory not empty''
        | ENOENT \<Rightarrow> ''no such file or directory''
        | ENOTDIR \<Rightarrow> ''not a directory''
        | EACCES \<Rightarrow> ''permission denied''
        | EPERM \<Rightarrow> ''permission denied''
        | _ \<Rightarrow> os_strerror os e)"

text \<open>\<^verbatim>\<open>while (!path.empty() && path.back() == '/') path.pop_back();\<close>\<close>

function strip_slashes :: "string \<Rightarrow> string" where
  "strip_slashes path = (if path \<noteq> [] \<and> last path = CHR ''/'' then strip_slashes (butlast path) else path)"
  by pat_completeness auto
termination
  by (relation "measure length") auto

declare strip_slashes.simps [simp del]

text \<open>The loop \<^verbatim>\<open>while (!path.empty())\<close> of the \<^verbatim>\<open>-p\<close> form.\<close>

function rmdir_p_loop :: "'s os \<Rightarrow> 's \<Rightarrow> string \<Rightarrow> CommandResult \<times> 's" where
  "rmdir_p_loop os s path =
     (if path = [] then (result 0 [] [], s)
      else (case os_rmdir os s path of
              (Some e, s') \<Rightarrow> (result 1 [] (formatRmdirErrorMsg os e path), s')
            | (None, s') \<Rightarrow>
                (case find_last_of ''/'' path of
                   None \<Rightarrow> (result 0 [] [], s')
                 | Some pos \<Rightarrow>
                     if take pos path = [] \<or> take pos path = ''/'' then (result 0 [] [], s')
                     else rmdir_p_loop os s' (take pos path))))"
  by pat_completeness auto
termination
  by (relation "measure (\<lambda>(os, s, path). length path)") (auto dest: find_last_of_less)

declare rmdir_p_loop.simps [simp del]

definition rmdirCommand :: "'s os \<Rightarrow> 's \<Rightarrow> string list \<Rightarrow> outcome \<times> 's" where
  "rmdirCommand os s args =
     (if args = [] then (Returned (result 1 [] ''rmdir: missing operand''), s)
      else if length args = 2 then
        (if args ! 0 = ''-p'' then
           (if args ! 1 = [] then (Returned (result 1 [] ''rmdir: no path specified''), s)
            else (case rmdir_p_loop os s (strip_slashes (args ! 1)) of (r, s') \<Rightarrow> (Returned r, s')))
         else (Returned (result 1 [] (''rmdir: unrecognized option '' @ [CHR 0x27] @ args ! 0 @ [CHR 0x27])), s))
      else if length args > 2 then (Returned (result 1 [] ''rmdir: too many arguments''), s)
      else (case os_rmdir os s (args ! 0) of
              (Some e, s') \<Rightarrow> (Returned (result 1 [] (formatRmdirErrorMsg os e (args ! 0))), s')
            | (None, s') \<Rightarrow> (Returned (result 0 [] []), s')))"

text \<open>
  The \<^verbatim>\<open>-p\<close> form as the specification words it: the trailing slashes are taken off,
  then the directory named and its ancestors are removed from the innermost outwards, up
  to the first failure. The ancestors of a path are its prefixes that end just before one
  of its slashes, longest first, as far as they are neither empty nor the root.
\<close>

definition slash_positions :: "string \<Rightarrow> nat list" where
  "slash_positions p = filter (\<lambda>i. p ! i = CHR ''/'') [0..<length p]"

definition ancestors_upward :: "string \<Rightarrow> string list" where
  "ancestors_upward p =
     takeWhile (\<lambda>a. a \<noteq> [] \<and> a \<noteq> ''/'') (map (\<lambda>i. take i p) (rev (slash_positions p)))"

definition rmdir_walk :: "string \<Rightarrow> string list" where
  "rmdir_walk path =
     (let p = rev (dropWhile (\<lambda>c. c = CHR ''/'') (rev path))
      in if p = [] then [] else p # ancestors_upward p)"

fun rmdir_each :: "'s os \<Rightarrow> 's \<Rightarrow> string list \<Rightarrow> (errno \<times> string) option \<times> 's" where
  "rmdir_each os s [] = (None, s)"
| "rmdir_each os s (p # ps) =
     (case os_rmdir os s p of
        (Some e, s') \<Rightarrow> (Some (e, p), s')
      | (None, s') \<Rightarrow> rmdir_each os s' ps)"

definition rmdir_report :: "'s os \<Rightarrow> (errno \<times> string) option \<times> 's \<Rightarrow> outcome \<times> 's" where
  "rmdir_report os x =
     (case x of
        (None, s') \<Rightarrow> (Returned (result 0 [] []), s')
      | (Some (e, p), s') \<Rightarrow> (Returned (result 1 [] (formatRmdirErrorMsg os e p)), s'))"

section \<open>mkdir (Commands::mkdirCommand)\<close>

text \<open>
  The loop over the leading arguments that start with \<^verbatim>\<open>-\<close>: it gives the option that
  is not \<^verbatim>\<open>-p\<close>, or the flag and the arguments that are left.
\<close>

fun mkdir_flags :: "string list \<Rightarrow> bool \<Rightarrow> string + bool \<times> string list" where
  "mkdir_flags [] recurse = Inr (recurse, [])"
| "mkdir_flags (a # as) recurse =
     (if first_is (CHR ''-'') a
      then (if a = ''-p'' then mkdir_flags as True else Inl a)
      else Inr (recurse, a # as))"

definition mkdir_error :: "'s os \<Rightarrow> string \<Rightarrow> errno \<Rightarrow> CommandResult" where
  "mkdir_error os path e =
     result 1 [] (''mkdir: cannot create directory '' @ [CHR 0x27] @ path @ [CHR 0x27] @ '': '' @ os_strerror os e)"

text \<open>
  The loop over the characters of one path under \<^verbatim>\<open>-p\<close>: \<^verbatim>\<open>partial\<close> is the prefix built
  so far, the list the characters still to come. It gives the error result when a
  \<^verbatim>\<open>mkdir\<close> fails with anything but \<^verbatim>\<open>EEXIST\<close>.
\<close>

fun mkdir_p_chars :: "'s os \<Rightarrow> 's \<Rightarrow> string \<Rightarrow> string \<Rightarrow> CommandResult option \<times> 's" where
  "mkdir_p_chars os s partial [] = (None, s)"
| "mkdir_p_chars os s partial (c # rest) =
     (if c \<noteq> CHR ''/'' \<and> rest \<noteq> [] then mkdir_p_chars os s (partial @ [c]) rest
      else if partial @ [c] = ''/'' \<or> partial @ [c] = ''//'' then mkdir_p_chars os s (partial @ [c]) rest
      else (case os_mkdir os s (partial @ [c]) of
              (Some e, s') \<Rightarrow>
                if e \<noteq> EEXIST then (Some (mkdir_error os (partial @ [c]) e), s')
                else mkdir_p_chars os s' (partial @ [c]) rest
            | (None, s') \<Rightarrow> mkdir_p_chars os s' (partial @ [c]) rest))"

text \<open>The loop over the directory operands.\<close>

fun mkdir_paths :: "'s os \<Rightarrow> 's \<Rightarrow> bool \<Rightarrow> string list \<Rightarrow> CommandResult \<times> 's" where
  "mkdir_paths os s recurse [] = (result 0 [] [], s)"
| "mkdir_paths os s recurse (path # rest) =
     (if \<not> recurse then
        (case os_mkdir os s path of
           (Some e, s') \<Rightarrow> (mkdir_error os path e, s')
         | (None, s') \<Rightarrow> mkdir_paths os s' recurse rest)
      else
        (case mkdir_p_chars os s [] path of
           (Some r, s') \<Rightarrow> (r, s')
         | (None, s') \<Rightarrow> mkdir_paths os s' recurse rest))"

definition mkdirCommand :: "'s os \<Rightarrow> 's \<Rightarrow> string list \<Rightarrow> outcome \<times> 's" where
  "mkdirCommand os s args =
     (if args = [] then (Returned (result 1 [] ''mkdir: missing directory argument''), s)
      else (case mkdir_flags args False of
              Inl opt \<Rightarrow> (Returned (result 1 [] (''mkdir: invalid option '' @ [CHR 0x27] @ opt @ [CHR 0x27])), s)
            | Inr (recurse, paths) \<Rightarrow>
                if paths = [] then (Returned (result 1 [] ''mkdir: missing directory argument''), s)
                else (case mkdir_paths os s recurse paths of (r, s') \<Rightarrow> (Returned r, s'))))"

text \<open>
  What the idempotence of \<^verbatim>\<open>mkdir -p\<close> needs of the system call: a \<^verbatim>\<open>mkdir\<close> that fails
  changes nothing, and one that succeeds leaves its directory, and every path that
  \<^verbatim>\<open>mkdir\<close> found existing before, existing afterwards. A path exists, for this purpose,
  when \<^verbatim>\<open>mkdir\<close> on it fails with \<^verbatim>\<open>EEXIST\<close>.
\<close>

definition mkdir_exists :: "'s os \<Rightarrow> 's \<Rightarrow> string \<Rightarrow> bool" where
  "mkdir_exists os s p = (fst (os_mkdir os s p) = Some EEXIST)"

definition mkdir_failure_keeps_state :: "'s os \<Rightarrow> bool" where
  "mkdir_failure_keeps_state os = (\<forall>s p e s'. os_mkdir os s p = (Some e, s') \<longrightarrow> s' = s)"

definition mkdir_keeps_directories :: "'s os \<Rightarrow> bool" where
  "mkdir_keeps_directories os =
     (\<forall>s p s'. os_mkdir os s p = (None, s') \<longrightarrow>
        mkdir_exists os s' p \<and> (\<forall>q. mkdir_exists os s q \<longrightarrow> mkdir_exists os s' q))"

text \<open>The prefixes that the loop over the characters of a path hands to mkdir.\<close>

fun mkdir_attempts :: "string \<Rightarrow> string \<Rightarrow> string list" where
  "mkdir_attempts partial [] = []"
| "mkdir_attempts partial (c # rest) =
     (if c \<noteq> CHR ''/'' \<and> rest \<noteq> [] then mkdir_attempts (partial @ [c]) rest
      else if partial @ [c] = ''/'' \<or> partial @ [c] = ''//'' then mkdir_attempts (partial @ [c]) rest
      else (partial @ [c]) # mkdir_attempts (partial @ [c]) rest)"

section \<open>chmod (Commands::chmodCommand)\<close>

text \<open>
  \<^verbatim>\<open>mode_t mode = std::stoi(perm, nullptr, 8)\<close>: the \<^verbatim>\<open>int\<close> is converted to the unsigned
  32-bit \<^verbatim>\<open>mode_t\<close>; \<^verbatim>\<open>catch (...)\<close> takes both exceptions of \<^verbatim>\<open>stoi\<close>.
\<close>

definition chmodCommand :: "'s os \<Rightarrow> 's \<Rightarrow> string list \<Rightarrow> outcome \<times> 's" where
  "chmodCommand os s args =
     (if length args \<noteq> 2
      then (Returned (result 1 [] ''chmod: requires exactly two arguments: permissions and file''), s)
      else (case stoi 8 (args ! 0) of
              Inl _ \<Rightarrow> (Returned (result 1 [] ''chmod: invalid permissions format''), s)
            | Inr i \<Rightarrow>
                (case os_chmod os s (args ! 1) (word_of_int i) of
                   (Some e, s') \<Rightarrow>
                     (Returned (result 1 [] (''chmod: failed to change permissions for '' @ [CHR 0x27] @ args ! 1
                        @ [CHR 0x27] @ '': '' @ os_strerror os e)), s')
                 | (None, s') \<Rightarrow> (Returned (result 0 [] []), s'))))"

section \<open>cp (Commands::cpCommand) and mv (Commands::mvCommand)\<close>

text \<open>
  The loop \<^verbatim>\<open>while ((bytesRead = read(...)) > 0) if (write(...) != bytesRead) return ...\<close>
  that both handlers contain: the chunks read are written one by one; it gives the
  \<^verbatim>\<open>errno\<close> found after a write whose count is not the length of the chunk.
\<close>

fun write_chunks :: "'s os \<Rightarrow> 's \<Rightarrow> nat \<Rightarrow> string list \<Rightarrow> errno option \<times> 's" where
  "write_chunks os s fd [] = (None, s)"
| "write_chunks os s fd (c # cs) =
     (case os_write os s fd c of
        ((n, e), s') \<Rightarrow> if n \<noteq> int (length c) then (Some e, s') else write_chunks os s' fd cs)"

text \<open>\<^verbatim>\<open>(pos == npos) ? src : src.substr(pos + 1)\<close> for \<^verbatim>\<open>pos = src.find_last_of(cs)\<close>.\<close>

definition basename_after :: "string \<Rightarrow> string \<Rightarrow> string" where
  "basename_after cs src = (case find_last_of cs src of None \<Rightarrow> src | Some pos \<Rightarrow> drop (pos + 1) src)"

definition q :: "string \<Rightarrow> string" where
  "q x = [CHR 0x27] @ x @ [CHR 0x27]"

text \<open>The body of the loop over the sources, for one source.\<close>

definition cp_one :: "'s os \<Rightarrow> 's \<Rightarrow> string \<Rightarrow> bool \<Rightarrow> string \<Rightarrow> CommandResult option \<times> 's" where
  "cp_one os s dest destIsDir src =
     (if stat_is_dir os s src then (Some (result 1 [] (''cp: omitting directory '' @ q src)), s)
      else
        (let finalDest = (if destIsDir then dest @ ''/'' @ basename_after ''/'' src else dest) in
         case os_open_rd os s src of
           Inl e \<Rightarrow> (Some (result 1 [] (''cp: cannot open source file '' @ q src @ '': '' @ os_strerror os e)), s)
         | Inr fdSrc \<Rightarrow>
             (case os_open_wr os s finalDest True of
                (Inl e, s1) \<Rightarrow>
                  (Some (result 1 [] (''cp: cannot create destination file '' @ q finalDest @ '': '' @ os_strerror os e)), s1)
              | (Inr fdDest, s1) \<Rightarrow>
                  (case os_read_all os s1 fdSrc 1024 of
                     (chunks, ending) \<Rightarrow>
                       (case write_chunks os s1 fdDest chunks of
                          (Some e, s2) \<Rightarrow>
                            (Some (result 1 [] (''cp: write error on '' @ q finalDest @ '': '' @ os_strerror os e)), s2)
                        | (None, s2) \<Rightarrow>
                            (case ending of
                               Some e \<Rightarrow> (Some (result 1 [] (''cp: read error on '' @ q src @ '': '' @ os_strerror os e)), s2)
                             | None \<Rightarrow> (None, s2)))))))"

fun cp_sources :: "'s os \<Rightarrow> 's \<Rightarrow> string \<Rightarrow> bool \<Rightarrow> string list \<Rightarrow> CommandResult \<times> 's" where
  "cp_sources os s dest destIsDir [] = (result 0 [] [], s)"
| "cp_sources os s dest destIsDir (src # rest) =
     (case cp_one os s dest destIsDir src of
        (Some r, s') \<Rightarrow> (r, s')
      | (None, s') \<Rightarrow> cp_sources os s' dest destIsDir rest)"

definition cpCommand :: "'s os \<Rightarrow> 's \<Rightarrow> string list \<Rightarrow> outcome \<times> 's" where
  "cpCommand os s args =
     (if args = [] then (Returned (result 1 [] ''cp: missing operand''), s)
      else if length args = 1
      then (Returned (result 1 [] (''cp: missing destination file operand after '' @ q (args ! 0))), s)
      else
        (let dest = last args;
             destIsDir = stat_is_dir os s dest;
             numSources = length args - 1
         in if numSources > 1 \<and> \<not> destIsDir
            then (Returned (result 1 [] (''cp: target '' @ q dest @ '' is not a directory'')), s)
            else (case cp_sources os s dest destIsDir (take numSources args) of (r, s') \<Rightarrow> (Returned r, s'))))"

text \<open>
  The fallback of \<^verbatim>\<open>mv\<close> after \<^verbatim>\<open>rename\<close> has failed with \<^verbatim>\<open>EXDEV\<close>. The loop does not
  look at how the last \<^verbatim>\<open>read\<close> ended.
\<close>

definition mv_copy :: "'s os \<Rightarrow> 's \<Rightarrow> string \<Rightarrow> string \<Rightarrow> CommandResult \<times> 's" where
  "mv_copy os s src dest =
     (case os_open_rd os s src of
        Inl e \<Rightarrow> (result 1 [] (''mv: cannot open source file '' @ q src), s)
      | Inr fdIn \<Rightarrow>
          (case os_open_wr os s dest True of
             (Inl e, s1) \<Rightarrow> (result 1 [] (''mv: cannot create destination file '' @ q dest), s1)
           | (Inr fdOut, s1) \<Rightarrow>
               (case write_chunks os s1 fdOut (fst (os_read_all os s1 fdIn 4096)) of
                  (Some e, s2) \<Rightarrow> (result 1 [] (''mv: write error while copying to '' @ q dest), s2)
                | (None, s2) \<Rightarrow>
                    (case os_unlink os s2 src of
                       (Some e, s3) \<Rightarrow> (result 1 [] (''mv: copied but failed to remove original '' @ q src), s3)
                     | (None, s3) \<Rightarrow> (result 0 [] [], s3)))))"

text \<open>
  The destination after the test for an existing directory. \<^verbatim>\<open>dest.back()\<close> is read only
  when \<^verbatim>\<open>stat\<close> has succeeded on \<^verbatim>\<open>dest\<close>, which it does on no empty path; for an
  interface that would let it succeed, the model appends the separator.
\<close>

definition mv_dest :: "'s os \<Rightarrow> 's \<Rightarrow> string \<Rightarrow> string \<Rightarrow> string" where
  "mv_dest os s src dest =
     (if stat_is_dir os s dest
      then (if dest = [] \<or> (last dest \<noteq> CHR ''/'' \<and> last dest \<noteq> CHR 0x5C) then dest @ ''/'' else dest)
             @ basename_after [CHR ''/'', CHR 0x5C] src
      else dest)"

definition mvCommand :: "'s os \<Rightarrow> 's \<Rightarrow> string list \<Rightarrow> outcome \<times> 's" where
  "mvCommand os s args =
     (if length args \<noteq> 2
      then (Returned (result 1 [] ''mv: requires exactly two arguments: source and destination''), s)
      else
        (let src = args ! 0; dest = mv_dest os s src (args ! 1) in
         case os_rename os s src dest of
           (None, s') \<Rightarrow> (Returned (result 0 [] []), s')
         | (Some e, s') \<Rightarrow>
             if e = EXDEV then (case mv_copy os s' src dest of (r, s'') \<Rightarrow> (Returned r, s''))
             else (Returned (result 1 [] (''mv: failed to move '' @ q src @ '' to '' @ q dest @ '': '' @ os_strerror os e)), s')))"

section \<open>grep (Commands::grepCommand, Commands::matchesPattern)\<close>

text \<open>
  The options the flag loop sets. \<^verbatim>\<open>opt_m\<close> is an \<^verbatim>\<open>int\<close> and -1 stands for no limit. The
  counters \<^verbatim>\<open>totalMatches\<close> and \<^verbatim>\<open>lineNumber\<close> are \<^verbatim>\<open>int\<close> as well; they are integers here,
  so the model is that of inputs with fewer than \<^verbatim>\<open>2^31\<close> lines.
\<close>

record grep_opts =
  opt_i :: bool
  opt_n :: bool
  opt_v :: bool
  opt_w :: bool
  opt_c :: bool
  opt_o :: bool
  opt_m :: int

definition grep_opts0 :: grep_opts where
  "grep_opts0 = \<lparr>opt_i = False, opt_n = False, opt_v = False, opt_w = False, opt_c = False,
                  opt_o = False, opt_m = - 1\<rparr>"

text \<open>
  The loop \<^verbatim>\<open>while (idx < args.size() && args[idx][0] == '-')\<close>: the arguments from
  \<^verbatim>\<open>idx\<close> on, the number of flags seen, the options so far. It ends with a result (or the
  exception of \<^verbatim>\<open>stoi\<close>), or with the options and the arguments that follow the flags.
\<close>

fun grep_flags :: "string list \<Rightarrow> nat \<Rightarrow> grep_opts \<Rightarrow> outcome + grep_opts \<times> string list" where
  "grep_flags [] flagCount opts = Inr (opts, [])"
| "grep_flags (flag # rest) flagCount opts =
     (if \<not> first_is (CHR ''-'') flag then Inr (opts, flag # rest)
      else if flagCount + 1 > 1 then Inl (Returned (result 1 [] ''grep: only one flag can be used at a time''))
      else if flag = ''-i'' then grep_flags rest (flagCount + 1) (opts\<lparr>opt_i := True\<rparr>)
      else if flag = ''-n'' then grep_flags rest (flagCount + 1) (opts\<lparr>opt_n := True\<rparr>)
      else if flag = ''-v'' then grep_flags rest (flagCount + 1) (opts\<lparr>opt_v := True\<rparr>)
      else if flag = ''-w'' then grep_flags rest (flagCount + 1) (opts\<lparr>opt_w := True\<rparr>)
      else if flag = ''-c'' then grep_flags rest (flagCount + 1) (opts\<lparr>opt_c := True\<rparr>)
      else if flag = ''-o'' then grep_flags rest (flagCount + 1) (opts\<lparr>opt_o := True\<rparr>)
      else if flag = ''-m'' then
        (case rest of
           [] \<Rightarrow> Inl (Returned (result 1 [] ''grep: missing argument for -m''))
         | num # rest' \<Rightarrow>
             (case stoi 10 num of
                Inl ex \<Rightarrow> Inl (Threw ex)
              | Inr m \<Rightarrow> grep_flags rest' (flagCount + 1) (opts\<lparr>opt_m := m\<rparr>)))
      else Inr (opts, flag # rest))"

text \<open>The arguments taken apart: the options, the pattern and the files, or an early result.\<close>

definition grep_parse :: "string list \<Rightarrow> outcome + grep_opts \<times> string \<times> string list" where
  "grep_parse args =
     (if length args < 2 then Inl (Returned (result 1 [] ''grep: missing arguments''))
      else (case grep_flags args 0 grep_opts0 of
              Inl out \<Rightarrow> Inl out
            | Inr (opts, []) \<Rightarrow> Inl (Returned (result 1 [] ''grep: missing pattern''))
            | Inr (opts, [pattern]) \<Rightarrow> Inl (Returned (result 1 [] ''grep: missing file operand''))
            | Inr (opts, pattern # files) \<Rightarrow> Inr (opts, pattern, files)))"

text \<open>\<^verbatim>\<open>Commands::matchesPattern\<close>: whether the line matches, and the text to print for it.\<close>

definition matchesPattern :: "(string \<Rightarrow> string option) \<Rightarrow> bool \<Rightarrow> string \<Rightarrow> bool \<times> string" where
  "matchesPattern re printOnlyMatch line =
     (case re line of
        None \<Rightarrow> (False, [])
      | Some m \<Rightarrow> (True, if printOnlyMatch then m else line))"

text \<open>
  What is done with one line, inside the read loop and for the last line alike. The state
  is \<^verbatim>\<open>totalMatches\<close> and \<^verbatim>\<open>out\<close>; \<^verbatim>\<open>Inl\<close> is the return from inside the loop once the
  limit is exceeded.
\<close>

definition grep_line ::
  "grep_opts \<Rightarrow> (string \<Rightarrow> string option) \<Rightarrow> bool \<Rightarrow> string \<Rightarrow> int \<Rightarrow> string \<Rightarrow> int \<times> string
     \<Rightarrow> CommandResult + int \<times> string" where
  "grep_line opts re multipleFiles file lineNumber line st =
     (case st of (totalMatches, out) \<Rightarrow>
      (case matchesPattern re (opt_o opts) line of (matched0, matchedText) \<Rightarrow>
        (let matched = (if opt_v opts then \<not> matched0 else matched0) in
         if \<not> matched then Inr (totalMatches, out)
         else if opt_m opts \<noteq> - 1 \<and> totalMatches + 1 > opt_m opts then
           (if opt_c opts then Inl (result 0 (to_string (totalMatches + 1)) [])
            else Inl (result 0 (if out \<noteq> [] \<and> last out = NL then butlast out else out) []))
         else if opt_c opts then Inr (totalMatches + 1, out)
         else Inr (totalMatches + 1,
                   out @ (if multipleFiles then file @ '':'' else [])
                       @ (if opt_n opts then to_string lineNumber @ '':'' else [])
                       @ (if opt_v opts \<and> \<not> opt_o opts then line @ [NL] else matchedText @ [NL])))))"

lemma drop_line_shorter:
  "NL \<in> set b \<Longrightarrow> length (dropWhile (\<lambda>c. c \<noteq> NL) b) - Suc 0 < length b"
  by (induction b) auto

text \<open>The loop \<^verbatim>\<open>while ((newlinePos = lineBuffer.find('\n')) != npos)\<close>.\<close>

function grep_drain ::
  "grep_opts \<Rightarrow> (string \<Rightarrow> string option) \<Rightarrow> bool \<Rightarrow> string \<Rightarrow> string \<Rightarrow> int \<Rightarrow> int \<times> string
     \<Rightarrow> CommandResult + string \<times> int \<times> int \<times> string" where
  "grep_drain opts re multipleFiles file lineBuffer lineNumber st =
     (if NL \<in> set lineBuffer then
        (case grep_line opts re multipleFiles file lineNumber (takeWhile (\<lambda>c. c \<noteq> NL) lineBuffer) st of
           Inl r \<Rightarrow> Inl r
         | Inr st' \<Rightarrow>
             grep_drain opts re multipleFiles file (tl (dropWhile (\<lambda>c. c \<noteq> NL) lineBuffer)) (lineNumber + 1) st')
      else Inr (lineBuffer, lineNumber, st))"
  by pat_completeness auto
termination
  by (relation "measure (\<lambda>(opts, re, mf, file, lineBuffer, lineNumber, st). length lineBuffer)")
     (auto simp: drop_line_shorter)

declare grep_drain.simps [simp del]

text \<open>The read loop: each chunk is appended to \<^verbatim>\<open>lineBuffer\<close>, then the whole lines are taken out.\<close>

fun grep_chunks ::
  "grep_opts \<Rightarrow> (string \<Rightarrow> string option) \<Rightarrow> bool \<Rightarrow> string \<Rightarrow> string list \<Rightarrow> string \<Rightarrow> int \<Rightarrow> int \<times> string
     \<Rightarrow> CommandResult + string \<times> int \<times> int \<times> string" where
  "grep_chunks opts re multipleFiles file [] lineBuffer lineNumber st = Inr (lineBuffer, lineNumber, st)"
| "grep_chunks opts re multipleFiles file (chunk # chunks) lineBuffer lineNumber st =
     (case grep_drain opts re multipleFiles file (lineBuffer @ chunk) lineNumber st of
        Inl r \<Rightarrow> Inl r
      | Inr (lineBuffer', lineNumber', st') \<Rightarrow>
          grep_chunks opts re multipleFiles file chunks lineBuffer' lineNumber' st')"

text \<open>The body of the loop over the files, for one file.\<close>

definition grep_file ::
  "'s os \<Rightarrow> 's \<Rightarrow> grep_opts \<Rightarrow> (string \<Rightarrow> string option) \<Rightarrow> bool \<Rightarrow> string \<Rightarrow> int \<times> string
     \<Rightarrow> CommandResult + int \<times> string" where
  "grep_file os s opts re multipleFiles file st =
     (case os_open_rd os s file of
        Inl e \<Rightarrow> Inl (result 1 [] (''grep: cannot open file '' @ q file))
      | Inr fd \<Rightarrow>
          (case grep_chunks opts re multipleFiles file (fst (os_read_all os s fd 1024)) [] 1 st of
             Inl r \<Rightarrow> Inl r
           | Inr (lineBuffer, lineNumber, st') \<Rightarrow>
               if lineBuffer \<noteq> [] then grep_line opts re multipleFiles file lineNumber lineBuffer st'
               else Inr st'))"

fun grep_files ::
  "'s os \<Rightarrow> 's \<Rightarrow> grep_opts \<Rightarrow> (string \<Rightarrow> string option) \<Rightarrow> bool \<Rightarrow> string list \<Rightarrow> int \<times> string
     \<Rightarrow> CommandResult + int \<times> string" where
  "grep_files os s opts re multipleFiles [] st = Inr st"
| "grep_files os s opts re multipleFiles (file # files) st =
     (case grep_file os s opts re multipleFiles file st of
        Inl r \<Rightarrow> Inl r
      | Inr st' \<Rightarrow> grep_files os s opts re multipleFiles files st')"

definition grep_pattern :: "grep_opts \<Rightarrow> string \<Rightarrow> string" where
  "grep_pattern opts pattern = (if opt_w opts then [CHR 0x5C, CHR ''b''] @ pattern @ [CHR 0x5C, CHR ''b''] else pattern)"

definition grep_run :: "'s os \<Rightarrow> 's \<Rightarrow> grep_opts \<Rightarrow> string \<Rightarrow> string list \<Rightarrow> CommandResult" where
  "grep_run os s opts pattern files =
     (case os_regex os (opt_i opts) (grep_pattern opts pattern) of
        None \<Rightarrow> result 1 [] ''grep: invalid regex''
      | Some re \<Rightarrow>
          (case grep_files os s opts re (length files > 1) files (0, []) of
             Inl r \<Rightarrow> r
           | Inr (totalMatches, out) \<Rightarrow>
               if opt_c opts then result 0 (to_string totalMatches) []
               else if totalMatches = 0 then result 1 [] []
               else result 0 (stripTrailingNewline out) []))"

definition grepCommand :: "'s os \<Rightarrow> 's \<Rightarrow> string list \<Rightarrow> outcome \<times> 's" where
  "grepCommand os s args =
     (case grep_parse args of
        Inl out \<Rightarrow> (out, s)
      | Inr (opts, pattern, files) \<Rightarrow> (Returned (grep_run os s opts pattern files), s))"

text \<open>
  The words the claims about \<^verbatim>\<open>grep\<close> use. The text of a file is what the read loop is
  handed; its lines are the pieces between newlines, a last piece without a newline
  included when it is not empty; a line is selected when it matches, or under \<^verbatim>\<open>-v\<close> when
  it does not.
\<close>

definition file_text :: "'s os \<Rightarrow> 's \<Rightarrow> string \<Rightarrow> string option" where
  "file_text os s file =
     (case os_open_rd os s file of
        Inl e \<Rightarrow> None
      | Inr fd \<Rightarrow> Some (concat (fst (os_read_all os s fd 1024))))"

definition text_lines :: "string \<Rightarrow> string list" where
  "text_lines text = (let ps = splitc NL text in if last ps = [] then butlast ps else ps)"

definition selected :: "grep_opts \<Rightarrow> (string \<Rightarrow> string option) \<Rightarrow> string \<Rightarrow> bool" where
  "selected opts re line = (if opt_v opts then re line = None else re line \<noteq> None)"

text \<open>The lines of the files, each with the name of its file, in the order they are read.\<close>

definition files_lines :: "'s os \<Rightarrow> 's \<Rightarrow> string list \<Rightarrow> (string \<times> string) list" where
  "files_lines os s files =
     concat (map (\<lambda>f. map (\<lambda>l. (f, l)) (case file_text os s f of None \<Rightarrow> [] | Some text \<Rightarrow> text_lines text)) files)"

text \<open>Running the lines one by one (what the loops amount to).\<close>

fun grep_lines ::
  "grep_opts \<Rightarrow> (string \<Rightarrow> string option) \<Rightarrow> bool \<Rightarrow> string \<Rightarrow> string list \<Rightarrow> int \<Rightarrow> int \<times> string
     \<Rightarrow> CommandResult + int \<times> string" where
  "grep_lines opts re mf file [] n st = Inr st"
| "grep_lines opts re mf file (l # ls) n st =
     (case grep_line opts re mf file n l st of
        Inl r \<Rightarrow> Inl r
      | Inr st' \<Rightarrow> grep_lines opts re mf file ls (n + 1) st')"

text \<open>The selected lines of the files, in the order they are read.\<close>

definition selected_lines :: "'s os \<Rightarrow> 's \<Rightarrow> grep_opts \<Rightarrow> (string \<Rightarrow> string option) \<Rightarrow> string list \<Rightarrow> (string \<times> string) list" where
  "selected_lines os s opts re files = filter (\<lambda>x. selected opts re (snd x)) (files_lines os s files)"

text \<open>A selected line as \<^verbatim>\<open>grep\<close> prints it without \<^verbatim>\<open>-n\<close> and \<^verbatim>\<open>-o\<close>: the name of the file when there are several, the line, a newline.\<close>

definition grep_show :: "bool \<Rightarrow> string \<times> string \<Rightarrow> string" where
  "grep_show multipleFiles x = (if multipleFiles then fst x @ '':'' else []) @ snd x @ [NL]"

section \<open>The handlers without a claim of their own\<close>

text \<open>\<^verbatim>\<open>Commands::helpCommand\<close>.\<close>

definition help_text :: string where
  "help_text =
     ''Available Commands:'' @ [NL]
     @ ''  cd [dir]                                 Change directory.'' @ [NL]
     @ ''  clr                                      Clear the screen.'' @ [NL]
     @ ''  dir [-a] [-A] [-l] [path]                List directory contents.'' @ [NL]
     @ ''  environ                                  Display environment variables.'' @ [NL]
     @ ''  echo [text]                              Print text.'' @ [NL]
     @ ''  help                                     Show help.'' @ [NL]
     @ ''  pause                                    Pause shell.'' @ [NL]
     @ ''  quit                                     Exit shell.'' @ [NL]
     @ ''  chmod <mode> <file>                      Change permissions.'' @ [NL]
     @ ''  chown <owner> <file>                     Change ownership.'' @ [NL]
     @ ''  ls [-a] [-A] [-l] [path]                 List directory contents.'' @ [NL]
     @ ''  pwd                                      Print working directory.'' @ [NL]
     @ ''  cat <file>...                            Print file contents.'' @ [NL]
     @ ''  mkdir <dir>                              Create directory.'' @ [NL]
     @ ''  rmdir [-p] <dir>                         Remove directory.'' @ [NL]
     @ ''  rm [-r] <path>                           Remove file or directory.'' @ [NL]
     @ ''  cp <src>... <dst>                        Copy.'' @ [NL]
     @ ''  mv <src> <dst>                           Move.'' @ [NL]
     @ ''  touch <file>                             Create empty file.'' @ [NL]
     @ ''  grep [OPTIONS] <pattern> <file>          Search text.'' @ [NL]
     @ ''  wc [-l] [-w] [-c]                        Count lines/words/chars.''"

definition helpCommand :: "'s os \<Rightarrow> 's \<Rightarrow> string list \<Rightarrow> outcome \<times> 's" where
  "helpCommand os s args =
     (if args \<noteq> [] then (Returned (result 1 [] ''help: this command takes no arguments''), s)
      else (Returned (result 0 help_text []), s))"

text \<open>\<^verbatim>\<open>Commands::echoCommand\<close>.\<close>

definition echoCommand :: "'s os \<Rightarrow> 's \<Rightarrow> string list \<Rightarrow> outcome \<times> 's" where
  "echoCommand os s args = (Returned (result 0 (fold (\<lambda>arg out. out @ arg @ '' '') args []) []), s)"

text \<open>\<^verbatim>\<open>Commands::pauseCommand\<close>; \<^verbatim>\<open>std::cin.ignore\<close> consumes a line of the standard input.\<close>

definition pauseCommand :: "'s os \<Rightarrow> 's \<Rightarrow> string list \<Rightarrow> outcome \<times> 's" where
  "pauseCommand os s args =
     (if args \<noteq> [] then (Returned (result 1 [] ''pause: this command takes no arguments''), s)
      else (Returned (result 0 [] []), os_cin_ignore os s))"

text \<open>\<^verbatim>\<open>Commands::formatLsLongListing\<close>, with the permission bits of \<^verbatim>\<open>sys/stat.h\<close>.\<close>

definition mode_bit :: "32 word \<Rightarrow> 32 word \<Rightarrow> char \<Rightarrow> char" where
  "mode_bit m b c = (if m AND b \<noteq> 0 then c else CHR ''-'')"

definition formatLsLongListing :: "'s os \<Rightarrow> 's \<Rightarrow> string \<Rightarrow> stat_info \<Rightarrow> string" where
  "formatLsLongListing os s name info =
     [if S_ISDIR (st_mode info) then CHR ''d'' else CHR ''-'',
      mode_bit (st_mode info) 0x100 (CHR ''r''), mode_bit (st_mode info) 0x80 (CHR ''w''),
      mode_bit (st_mode info) 0x40 (CHR ''x''), mode_bit (st_mode info) 0x20 (CHR ''r''),
      mode_bit (st_mode info) 0x10 (CHR ''w''), mode_bit (st_mode info) 0x8 (CHR ''x''),
      mode_bit (st_mode info) 0x4 (CHR ''r''), mode_bit (st_mode info) 0x2 (CHR ''w''),
      mode_bit (st_mode info) 0x1 (CHR ''x'')]
     @ '' '' @ to_string (int (st_nlink info))
     @ '' '' @ (case os_getpwuid os s (st_uid info) of Some n \<Rightarrow> n | None \<Rightarrow> to_string (int (st_uid info)))
     @ '' '' @ (case os_getgrgid os s (st_gid info) of Some n \<Rightarrow> n | None \<Rightarrow> to_string (int (st_gid info)))
     @ '' '' @ to_string (st_size info)
     @ '' '' @ os_strftime os (st_mtime info)
     @ '' '' @ name @ [NL]"

text \<open>
  \<^verbatim>\<open>Commands::lsCommand\<close>. The loop over the arguments gives the first invalid flag, or
  the three switches and the paths.
\<close>

fun ls_args :: "string list \<Rightarrow> bool \<times> bool \<times> bool \<times> string list \<Rightarrow> string + bool \<times> bool \<times> bool \<times> string list" where
  "ls_args [] st = Inr st"
| "ls_args (arg # rest) (showAll, almostAll, longList, paths) =
     (if arg = ''-a'' then ls_args rest (True, almostAll, longList, paths)
      else if arg = ''-A'' then ls_args rest (showAll, True, longList, paths)
      else if arg = ''-l'' then ls_args rest (showAll, almostAll, True, paths)
      else if length arg > 1 \<and> first_is (CHR ''-'') arg then Inl arg
      else ls_args rest (showAll, almostAll, longList, paths @ [arg]))"

text \<open>The loop over the entries of one directory.\<close>

fun ls_entries :: "'s os \<Rightarrow> 's \<Rightarrow> bool \<Rightarrow> bool \<Rightarrow> bool \<Rightarrow> string \<Rightarrow> string list \<Rightarrow> string \<Rightarrow> CommandResult + string" where
  "ls_entries os s showAll almostAll longList p [] out = Inr out"
| "ls_entries os s showAll almostAll longList p (name # names) out =
     (if \<not> showAll \<and> \<not> almostAll \<and> first_is (CHR ''.'') name
      then ls_entries os s showAll almostAll longList p names out
      else if almostAll \<and> (name = ''.'' \<or> name = ''..'')
      then ls_entries os s showAll almostAll longList p names out
      else if longList then
        (case os_stat os s (p @ ''/'' @ name) of
           Inl e \<Rightarrow> Inl (result 1 [] (''ls: cannot access '' @ q name @ '': '' @ os_strerror os e))
         | Inr finfo \<Rightarrow>
             ls_entries os s showAll almostAll longList p names (out @ formatLsLongListing os s name finfo))
      else ls_entries os s showAll almostAll longList p names (out @ name @ '' ''))"

text \<open>The loop over the paths; \<^verbatim>\<open>many\<close> is \<^verbatim>\<open>paths.size() > 1\<close>.\<close>

fun ls_paths :: "'s os \<Rightarrow> 's \<Rightarrow> bool \<Rightarrow> bool \<Rightarrow> bool \<Rightarrow> bool \<Rightarrow> string list \<Rightarrow> string \<Rightarrow> CommandResult" where
  "ls_paths os s showAll almostAll longList many [] out = result 0 (stripTrailingNewline out) []"
| "ls_paths os s showAll almostAll longList many (p # ps) out =
     (case os_stat os s p of
        Inl e \<Rightarrow> result 1 [] (''ls: cannot access '' @ q p @ '': '' @ os_strerror os e)
      | Inr info \<Rightarrow>
          if \<not> S_ISDIR (st_mode info)
          then ls_paths os s showAll almostAll longList many ps
                 (if longList then out @ formatLsLongListing os s p info else out @ p @ [NL])
          else
            (case os_readdir os s p of
               Inl e \<Rightarrow> result 1 [] (''ls: cannot open directory '' @ q p @ '': '' @ os_strerror os e)
             | Inr names \<Rightarrow>
                 (case ls_entries os s showAll almostAll longList p names (if many then out @ p @ '':'' @ [NL] else out) of
                    Inl r \<Rightarrow> r
                  | Inr out' \<Rightarrow> ls_paths os s showAll almostAll longList many ps out')))"

definition lsCommand :: "'s os \<Rightarrow> 's \<Rightarrow> string list \<Rightarrow> outcome \<times> 's" where
  "lsCommand os s args =
     (case ls_args args (False, False, False, []) of
        Inl arg \<Rightarrow> (Returned (result 1 [] (''ls: invalid flag -- '' @ q arg)), s)
      | Inr (showAll, almostAll, longList, paths0) \<Rightarrow>
          (let paths = (if paths0 = [] then [''.''] else paths0)
           in (Returned (ls_paths os s showAll almostAll longList (length paths > 1) paths []), s)))"

text \<open>\<^verbatim>\<open>Commands::dirCommand\<close>.\<close>

definition dirCommand :: "'s os \<Rightarrow> 's \<Rightarrow> string list \<Rightarrow> outcome \<times> 's" where
  "dirCommand os s args = lsCommand os s args"

text \<open>
  \<^verbatim>\<open>Commands::cdCommand\<close>. \<^verbatim>\<open>getenv\<close> gives a null pointer when \<^verbatim>\<open>HOME\<close> is not set:
  \<^verbatim>\<open>chdir\<close> is then called with it, and \<^verbatim>\<open>std::string(home)\<close> throws \<^verbatim>\<open>std::logic_error\<close>
  (libstdc++; the standard leaves it undefined).
\<close>

definition cdCommand :: "'s os \<Rightarrow> 's \<Rightarrow> string list \<Rightarrow> outcome \<times> 's" where
  "cdCommand os s args =
     (let home = os_getenv_HOME os s in
      if args = [] then
        (case os_chdir os s home of
           (Some e, s') \<Rightarrow> (Returned (result 1 [] ''cd: failed to change directory''), s')
         | (None, s') \<Rightarrow> (Returned (result 0 [] []), s'))
      else if length args = 1 then
        (if first_is (CHR ''~'') (args ! 0) \<and> home = None then (Threw LogicError, s)
         else
           (let path = (if first_is (CHR ''~'') (args ! 0) then the home @ drop 1 (args ! 0) else args ! 0) in
            case os_chdir os s (Some path) of
              (Some e, s') \<Rightarrow> (Returned (result 1 [] (''cd: failed to change directory: '' @ path)), s')
            | (None, s') \<Rightarrow> (Returned (result 0 [] []), s')))
      else (Returned (result 1 [] ''cd: too many arguments''), s))"

text \<open>\<^verbatim>\<open>Commands::touchCommand\<close>; the file is created with \<^verbatim>\<open>O_CREAT | O_WRONLY\<close>, not truncated.\<close>

definition touchCommand :: "'s os \<Rightarrow> 's \<Rightarrow> string list \<Rightarrow> outcome \<times> 's" where
  "touchCommand os s args =
     (if args = [] \<or> length args > 1 then (Returned (result 1 [] ''touch: invalid arguments passed''), s)
      else
        (let fileName = args ! 0 in
         case os_stat os s fileName of
           Inl _ \<Rightarrow>
             (case os_open_wr os s fileName False of
                (Inl e, s') \<Rightarrow>
                  (Returned (result 1 [] (''touch: cannot create file '' @ q fileName @ '': '' @ os_strerror os e)), s')
              | (Inr fd, s') \<Rightarrow> (Returned (result 0 [] []), s'))
         | Inr st \<Rightarrow>
             (case os_utime os s fileName (os_time os s) (os_time os s) of
                (Some e, s') \<Rightarrow>
                  (Returned (result 1 [] (''touch: failed to update timestamps for '' @ q fileName @ '': '' @ os_strerror os e)), s')
              | (None, s') \<Rightarrow> (Returned (result 0 [] []), s'))))"

text \<open>\<^verbatim>\<open>Commands::chownCommand\<close>: the loop over the files, then the handler.\<close>

fun chown_files :: "'s os \<Rightarrow> 's \<Rightarrow> nat \<Rightarrow> string list \<Rightarrow> CommandResult \<times> 's" where
  "chown_files os s newOwner [] = (result 0 [] [], s)"
| "chown_files os s newOwner (f # fs) =
     (case os_stat os s f of
        Inl e \<Rightarrow> (result 1 [] (''chown: cannot access '' @ q f @ '': '' @ os_strerror os e), s)
      | Inr st \<Rightarrow>
          (case os_chown os s f newOwner of
             (Some e, s') \<Rightarrow> (result 1 [] (''chown: failed to change owner of '' @ q f @ '': '' @ os_strerror os e), s')
           | (None, s') \<Rightarrow> chown_files os s' newOwner fs))"

definition chownCommand :: "'s os \<Rightarrow> 's \<Rightarrow> string list \<Rightarrow> outcome \<times> 's" where
  "chownCommand os s args =
     (if args = [] then (Returned (result 1 [] ''chown: missing arguments''), s)
      else if length args < 2 then (Returned (result 1 [] ''chown: missing operand''), s)
      else (case os_getpwnam os s (args ! 0) of
              None \<Rightarrow> (Returned (result 1 [] ''chown: no such user found''), s)
            | Some newOwner \<Rightarrow>
                (case chown_files os s newOwner (drop 1 args) of (r, s') \<Rightarrow> (Returned r, s'))))"

text \<open>
  \<^verbatim>\<open>Commands::quitCommand\<close>: without arguments it prints its farewell and ends the process
  with code 0; it does not return.
\<close>

definition quitCommand :: "'s os \<Rightarrow> 's \<Rightarrow> string list \<Rightarrow> outcome \<times> 's" where
  "quitCommand os s args =
     (if args \<noteq> [] then (Returned (result 1 [] ''quit: this command takes no arguments''), s)
      else (Exited 0, s))"

text \<open>\<^verbatim>\<open>Commands::clrCommand\<close>; \<^verbatim>\<open>\e\<close> is the escape character.\<close>

definition clrCommand :: "'s os \<Rightarrow> 's \<Rightarrow> string list \<Rightarrow> outcome \<times> 's" where
  "clrCommand os s args =
     (if args \<noteq> [] then (Returned (result 1 [] ''clr: takes no arguments''), s)
      else (Returned (result 0 (NO_NL @ [CHR 0x1B] @ ''[H'' @ [CHR 0x1B] @ ''[J'') []), s))"

text \<open>\<^verbatim>\<open>Commands::pwdCommand\<close>.\<close>

definition pwdCommand :: "'s os \<Rightarrow> 's \<Rightarrow> string list \<Rightarrow> outcome \<times> 's" where
  "pwdCommand os s args =
     (if args \<noteq> [] then (Returned (result 1 [] ''pwd: this command takes no arguments''), s)
      else (case os_getcwd os s of
              None \<Rightarrow> (Returned (result 1 [] ''pwd: failed to get current directory''), s)
            | Some cwd \<Rightarrow> (Returned (result 0 cwd []), s)))"

text \<open>\<^verbatim>\<open>Commands::environCommand\<close>.\<close>

definition environCommand :: "'s os \<Rightarrow> 's \<Rightarrow> string list \<Rightarrow> outcome \<times> 's" where
  "environCommand os s args =
     (if args \<noteq> [] then (Returned (result 1 [] ''environ: this command takes no arguments''), s)
      else (Returned (result 0 (stripTrailingNewline (fold (\<lambda>e out. out @ e @ [NL]) (os_environ os s) [])) []), s))"

text \<open>\<^verbatim>\<open>Commands::catCommand\<close>: the loop over the files, then the handler.\<close>

fun cat_files :: "'s os \<Rightarrow> 's \<Rightarrow> string list \<Rightarrow> string \<Rightarrow> CommandResult" where
  "cat_files os s [] out = result 0 (stripTrailingNewline out) []"
| "cat_files os s (filename # rest) out =
     (case os_open_rd os s filename of
        Inl e \<Rightarrow> result 1 [] (''cat: cannot open '' @ filename @ '': '' @ os_strerror os e)
      | Inr fd \<Rightarrow>
          (case os_read_all os s fd 4096 of
             (chunks, Some e) \<Rightarrow> result 1 [] (''cat: error reading '' @ filename @ '': '' @ os_strerror os e)
           | (chunks, None) \<Rightarrow> cat_files os s rest (fold (\<lambda>chunk out. out @ chunk) chunks out @ [NL])))"

definition catCommand :: "'s os \<Rightarrow> 's \<Rightarrow> string list \<Rightarrow> outcome \<times> 's" where
  "catCommand os s args =
     (if args = [] then (Returned (result 1 [] ''cat: missing file operand''), s)
      else (Returned (cat_files os s args []), s))"

text \<open>
  \<^verbatim>\<open>Commands::rmCommand\<close>. The flag loop gives an early result, or the switch and the
  operands.
\<close>

fun rm_flags :: "string list \<Rightarrow> bool \<Rightarrow> CommandResult + bool \<times> string list" where
  "rm_flags [] recursive = Inr (recursive, [])"
| "rm_flags (flag # rest) recursive =
     (if \<not> first_is (CHR ''-'') flag then Inr (recursive, flag # rest)
      else if CHR ''r'' \<notin> set flag then Inl (result 1 [] (''rm: invalid option '' @ q flag))
      else if rest = [] then Inl (result 1 [] (''rm: missing operand after '' @ q flag))
      else rm_flags rest True)"

text \<open>
  The loop over the entries of a directory that is removed recursively: \<^verbatim>\<open>self\<close> is the
  handler itself, called with \<^verbatim>\<open>-r\<close> and the entry; what it returns is dropped, the
  state it leaves is kept. \<^verbatim>\<open>None\<close> is a call that does not come back.
\<close>

fun rm_entries :: "('s \<Rightarrow> string list \<Rightarrow> (outcome \<times> 's) option) \<Rightarrow> 's \<Rightarrow> string \<Rightarrow> string list \<Rightarrow> 's option" where
  "rm_entries self s path [] = Some s"
| "rm_entries self s path (name # names) =
     (if name = ''.'' \<or> name = ''..'' then rm_entries self s path names
      else (case self s [''-r'', path @ ''/'' @ name] of
              None \<Rightarrow> None
            | Some (_, s') \<Rightarrow> rm_entries self s' path names))"

text \<open>The loop over the operands.\<close>

fun rm_paths :: "('s \<Rightarrow> string list \<Rightarrow> (outcome \<times> 's) option) \<Rightarrow> 's os \<Rightarrow> 's \<Rightarrow> bool \<Rightarrow> string list \<Rightarrow> (CommandResult \<times> 's) option" where
  "rm_paths self os s recursive [] = Some (result 0 [] [], s)"
| "rm_paths self os s recursive (path # rest) =
     (case os_stat os s path of
        Inl e \<Rightarrow> Some (result 1 [] (''rm: cannot access '' @ q path @ '': '' @ os_strerror os e), s)
      | Inr st \<Rightarrow>
          if S_ISDIR (st_mode st) then
            (if recursive then
               (case os_readdir os s path of
                  Inl e \<Rightarrow> Some (result 1 [] (''rm: cannot open directory '' @ q path @ '': '' @ os_strerror os e), s)
                | Inr names \<Rightarrow>
                    (case rm_entries self s path names of
                       None \<Rightarrow> None
                     | Some s1 \<Rightarrow>
                         (case os_rmdir os s1 path of
                            (Some e, s2) \<Rightarrow>
                              Some (result 1 [] (''rm: failed to remove directory '' @ q path @ '': '' @ os_strerror os e), s2)
                          | (None, s2) \<Rightarrow> rm_paths self os s2 recursive rest)))
             else Some (result 1 [] (''rm: '' @ q path @ '' is a directory''), s))
          else
            (case os_unlink os s path of
               (Some e, s') \<Rightarrow> Some (result 1 [] (''rm: cannot remove '' @ q path @ '': '' @ os_strerror os e), s')
             | (None, s') \<Rightarrow> rm_paths self os s' recursive rest))"

text \<open>
  The handler calls itself for every entry of a directory, to a depth that only the
  file system bounds. Here the depth of the calls is bounded by a number: with the bound
  used up the handler has not returned (\<^verbatim>\<open>None\<close>).
\<close>

primrec rmCommand :: "nat \<Rightarrow> 's os \<Rightarrow> 's \<Rightarrow> string list \<Rightarrow> (outcome \<times> 's) option" where
  "rmCommand 0 os s args = None"
| "rmCommand (Suc depth) os s args =
     (if args = [] then Some (Returned (result 1 [] ''rm: missing operand''), s)
      else (case rm_flags args False of
              Inl r \<Rightarrow> Some (Returned r, s)
            | Inr (recursive, paths) \<Rightarrow>
                (case rm_paths (rmCommand depth os) os s recursive paths of
                   None \<Rightarrow> None
                 | Some (r, s') \<Rightarrow> Some (Returned r, s'))))"

section \<open>All the handlers\<close>

text \<open>
  The handlers of \<^verbatim>\<open>commands.cpp\<close>, each as a function that may not come back; only
  \<^verbatim>\<open>rm\<close> has a bound on the depth of its calls, the others always return.
\<close>

definition handlers :: "nat \<Rightarrow> ('s os \<Rightarrow> 's \<Rightarrow> string list \<Rightarrow> (outcome \<times> 's) option) list" where
  "handlers depth =
     map (\<lambda>h os s args. Some (h os s args))
       [helpCommand, echoCommand, pauseCommand, lsCommand, dirCommand, cdCommand, rmdirCommand,
        touchCommand, cpCommand, chownCommand, grepCommand, quitCommand, clrCommand, pwdCommand,
        environCommand, catCommand, wcCommand, mkdirCommand, mvCommand, chmodCommand]
     @ [rmCommand depth]"

text \<open>A result that uses one channel: status 0 without an error text, or status 1 without output.\<close>

definition one_channel :: "CommandResult \<Rightarrow> bool" where
  "one_channel r = ((status r = 0 \<and> error r = []) \<or> (status r = 1 \<and> output r = []))"

section \<open>A small file system\<close>

text \<open>
  One instance of the interface, used to run the handlers on concrete inputs: a tree of
  directories and regular files in memory. An entry is kept under the list of names that
  leads to it from the root; the root itself is always there. Paths are resolved from the
  working directory, \<^verbatim>\<open>.\<close> and \<^verbatim>\<open>..\<close> lexically. Everything below the top-level name
  \<^verbatim>\<open>mnt\<close> counts as another device, so that a \<^verbatim>\<open>rename\<close> across that border fails
  with \<^verbatim>\<open>EXDEV\<close>; an entry listed as \<^verbatim>\<open>locked\<close> cannot be removed. A read delivers at
  most eight bytes at a time.
\<close>

datatype node = File string | Dir

record toy =
  nodes :: "(string list \<times> node) list"
  locked :: "string list list"
  modes :: "(string list \<times> 32 word) list"
  owners :: "(string list \<times> nat) list"
  mtimes :: "(string list \<times> int) list"
  cwd :: "string list"
  clock :: int
  env_vars :: "(string \<times> string) list"
  users :: "(string \<times> nat) list"

definition toy_step :: "string \<Rightarrow> string list \<Rightarrow> string list" where
  "toy_step name k = (if name = [] \<or> name = ''.'' then k else if name = ''..'' then butlast k else k @ [name])"

definition toy_key :: "toy \<Rightarrow> string \<Rightarrow> string list" where
  "toy_key s p = fold toy_step (splitc (CHR ''/'') p) (if first_is (CHR ''/'') p then [] else cwd s)"

definition toy_lookup :: "toy \<Rightarrow> string \<Rightarrow> errno + node" where
  "toy_lookup s p =
     (if p = [] then Inl ENOENT
      else if toy_key s p = [] then Inr Dir
      else (case map_of (nodes s) (toy_key s p) of None \<Rightarrow> Inl ENOENT | Some n \<Rightarrow> Inr n))"

definition toy_parent_ok :: "toy \<Rightarrow> string list \<Rightarrow> bool" where
  "toy_parent_ok s k = (butlast k = [] \<or> map_of (nodes s) (butlast k) = Some Dir)"

definition toy_stat :: "toy \<Rightarrow> string \<Rightarrow> errno + stat_info" where
  "toy_stat s p =
     (case toy_lookup s p of
        Inl e \<Rightarrow> Inl e
      | Inr n \<Rightarrow>
          (let k = toy_key s p;
               perm = (case map_of (modes s) k of Some m \<Rightarrow> m AND 0xFFF
                       | None \<Rightarrow> (case n of Dir \<Rightarrow> 0x1ED | File _ \<Rightarrow> 0x1A4))
           in Inr \<lparr>st_mode = (case n of Dir \<Rightarrow> 0x4000 | File _ \<Rightarrow> 0x8000) OR perm,
                   st_nlink = 1,
                   st_uid = (case map_of (owners s) k of Some u \<Rightarrow> u | None \<Rightarrow> 0),
                   st_gid = 0,
                   st_size = (case n of Dir \<Rightarrow> 4096 | File c \<Rightarrow> int (length c)),
                   st_mtime = (case map_of (mtimes s) k of Some t \<Rightarrow> t | None \<Rightarrow> 0)\<rparr>))"

definition toy_readdir :: "toy \<Rightarrow> string \<Rightarrow> errno + string list" where
  "toy_readdir s p =
     (case toy_lookup s p of
        Inl e \<Rightarrow> Inl e
      | Inr (File _) \<Rightarrow> Inl ENOTDIR
      | Inr Dir \<Rightarrow>
          Inr (''.'' # ''..'' # map (\<lambda>e. last (fst e))
                 (filter (\<lambda>e. fst e \<noteq> [] \<and> butlast (fst e) = toy_key s p) (nodes s))))"

fun index_of :: "'a \<Rightarrow> 'a list \<Rightarrow> nat" where
  "index_of x [] = 0"
| "index_of x (y # ys) = (if x = y then 0 else Suc (index_of x ys))"

text \<open>The descriptor of an entry is its position among the entries plus one; 0 is the root.\<close>

definition toy_open_rd :: "toy \<Rightarrow> string \<Rightarrow> errno + nat" where
  "toy_open_rd s p =
     (case toy_lookup s p of
        Inl e \<Rightarrow> Inl e
      | Inr _ \<Rightarrow> if toy_key s p = [] then Inr 0 else Inr (Suc (index_of (toy_key s p) (map fst (nodes s)))))"

function chop :: "nat \<Rightarrow> 'a list \<Rightarrow> 'a list list" where
  "chop n xs = (if n = 0 \<or> xs = [] then [] else take n xs # chop n (drop n xs))"
  by pat_completeness auto
termination
  by (relation "measure (\<lambda>(n, xs). length xs)") auto

declare chop.simps [simp del]

definition toy_read_all :: "toy \<Rightarrow> nat \<Rightarrow> nat \<Rightarrow> string list \<times> errno option" where
  "toy_read_all s fd n =
     (case fd of
        0 \<Rightarrow> ([], Some (Eother 21))
      | Suc i \<Rightarrow>
          if i < length (nodes s)
          then (case snd (nodes s ! i) of
                  File c \<Rightarrow> (chop (min n 8) c, None)
                | Dir \<Rightarrow> ([], Some (Eother 21)))
          else ([], Some (Eother 9)))"

definition toy_set :: "string list \<Rightarrow> node \<Rightarrow> (string list \<times> node) list \<Rightarrow> (string list \<times> node) list" where
  "toy_set k n es = map (\<lambda>e. if fst e = k then (k, n) else e) es"

definition toy_open_wr :: "toy \<Rightarrow> string \<Rightarrow> bool \<Rightarrow> (errno + nat) \<times> toy" where
  "toy_open_wr s p trunc =
     (let k = toy_key s p in
      if p = [] then (Inl ENOENT, s)
      else if k = [] then (Inl (Eother 21), s)
      else (case map_of (nodes s) k of
              Some Dir \<Rightarrow> (Inl (Eother 21), s)
            | Some (File c) \<Rightarrow>
                (Inr (Suc (index_of k (map fst (nodes s)))),
                 if trunc then s\<lparr>nodes := toy_set k (File []) (nodes s)\<rparr> else s)
            | None \<Rightarrow>
                if toy_parent_ok s k
                then (Inr (Suc (length (nodes s))), s\<lparr>nodes := nodes s @ [(k, File [])]\<rparr>)
                else (Inl ENOENT, s)))"

definition toy_write :: "toy \<Rightarrow> nat \<Rightarrow> string \<Rightarrow> (int \<times> errno) \<times> toy" where
  "toy_write s fd str =
     (case fd of
        0 \<Rightarrow> ((- 1, Eother 9), s)
      | Suc i \<Rightarrow>
          if i < length (nodes s)
          then (case nodes s ! i of
                  (k, File c) \<Rightarrow> ((int (length str), Eother 0), s\<lparr>nodes := (nodes s)[i := (k, File (c @ str))]\<rparr>)
                | (k, Dir) \<Rightarrow> ((- 1, Eother 9), s))
          else ((- 1, Eother 9), s))"

definition toy_mkdir :: "toy \<Rightarrow> string \<Rightarrow> errno option \<times> toy" where
  "toy_mkdir s p =
     (let k = toy_key s p in
      if p = [] then (Some ENOENT, s)
      else if k = [] \<or> map_of (nodes s) k \<noteq> None then (Some EEXIST, s)
      else if toy_parent_ok s k then (None, s\<lparr>nodes := nodes s @ [(k, Dir)]\<rparr>)
      else if map_of (nodes s) (butlast k) = None then (Some ENOENT, s)
      else (Some ENOTDIR, s))"

definition toy_has_child :: "toy \<Rightarrow> string list \<Rightarrow> bool" where
  "toy_has_child s k = (\<exists>e \<in> set (nodes s). fst e \<noteq> [] \<and> butlast (fst e) = k)"

definition toy_remove :: "string list \<Rightarrow> toy \<Rightarrow> toy" where
  "toy_remove k s = s\<lparr>nodes := filter (\<lambda>e. fst e \<noteq> k) (nodes s)\<rparr>"

definition toy_rmdir :: "toy \<Rightarrow> string \<Rightarrow> errno option \<times> toy" where
  "toy_rmdir s p =
     (let k = toy_key s p in
      case toy_lookup s p of
        Inl e \<Rightarrow> (Some e, s)
      | Inr (File _) \<Rightarrow> (Some ENOTDIR, s)
      | Inr Dir \<Rightarrow>
          if k = [] then (Some (Eother 16), s)
          else if toy_has_child s k then (Some ENOTEMPTY, s)
          else if k \<in> set (locked s) then (Some EPERM, s)
          else (None, toy_remove k s))"

definition toy_unlink :: "toy \<Rightarrow> string \<Rightarrow> errno option \<times> toy" where
  "toy_unlink s p =
     (let k = toy_key s p in
      case toy_lookup s p of
        Inl e \<Rightarrow> (Some e, s)
      | Inr Dir \<Rightarrow> (Some (Eother 21), s)
      | Inr (File _) \<Rightarrow>
          if k \<in> set (locked s) then (Some EPERM, s) else (None, toy_remove k s))"

definition toy_other_device :: "string list \<Rightarrow> bool" where
  "toy_other_device k = (case k of [] \<Rightarrow> False | x # _ \<Rightarrow> x = ''mnt'')"

definition toy_rename :: "toy \<Rightarrow> string \<Rightarrow> string \<Rightarrow> errno option \<times> toy" where
  "toy_rename s a b =
     (let ka = toy_key s a; kb = toy_key s b in
      case toy_lookup s a of
        Inl e \<Rightarrow> (Some e, s)
      | Inr n \<Rightarrow>
          if b = [] then (Some ENOENT, s)
          else if ka = [] \<or> kb = [] then (Some (Eother 16), s)
          else if toy_other_device ka \<noteq> toy_other_device kb then (Some EXDEV, s)
          else if \<not> toy_parent_ok s kb then (Some ENOENT, s)
          else if ka = kb then (None, s)
          else (None, s\<lparr>nodes :=
                  map (\<lambda>e. if take (length ka) (fst e) = ka then (kb @ drop (length ka) (fst e), snd e) else e)
                    (filter (\<lambda>e. fst e \<noteq> kb) (nodes s))\<rparr>))"

definition toy_chmod :: "toy \<Rightarrow> string \<Rightarrow> 32 word \<Rightarrow> errno option \<times> toy" where
  "toy_chmod s p m =
     (case toy_lookup s p of
        Inl e \<Rightarrow> (Some e, s)
      | Inr _ \<Rightarrow> (None, s\<lparr>modes := (toy_key s p, m) # modes s\<rparr>))"

definition toy_chown :: "toy \<Rightarrow> string \<Rightarrow> nat \<Rightarrow> errno option \<times> toy" where
  "toy_chown s p u =
     (case toy_lookup s p of
        Inl e \<Rightarrow> (Some e, s)
      | Inr _ \<Rightarrow> (None, s\<lparr>owners := (toy_key s p, u) # owners s\<rparr>))"

definition toy_utime :: "toy \<Rightarrow> string \<Rightarrow> int \<Rightarrow> int \<Rightarrow> errno option \<times> toy" where
  "toy_utime s p a m =
     (case toy_lookup s p of
        Inl e \<Rightarrow> (Some e, s)
      | Inr _ \<Rightarrow> (None, s\<lparr>mtimes := (toy_key s p, m) # mtimes s\<rparr>))"

definition toy_chdir :: "toy \<Rightarrow> string option \<Rightarrow> errno option \<times> toy" where
  "toy_chdir s po =
     (case po of
        None \<Rightarrow> (Some (Eother 14), s)
      | Some p \<Rightarrow>
          (case toy_lookup s p of
             Inl e \<Rightarrow> (Some e, s)
           | Inr (File _) \<Rightarrow> (Some ENOTDIR, s)
           | Inr Dir \<Rightarrow> (None, s\<lparr>cwd := toy_key s p\<rparr>)))"

definition toy_getcwd :: "toy \<Rightarrow> string option" where
  "toy_getcwd s = Some (if cwd s = [] then ''/'' else concat (map (\<lambda>c. CHR ''/'' # c) (cwd s)))"

definition toy_strerror :: "errno \<Rightarrow> string" where
  "toy_strerror e =
     (case e of
        EPERM \<Rightarrow> ''Operation not permitted''
      | ENOENT \<Rightarrow> ''No such file or directory''
      | EACCES \<Rightarrow> ''Permission denied''
      | EEXIST \<Rightarrow> ''File exists''
      | EXDEV \<Rightarrow> ''Invalid cross-device link''
      | ENOTDIR \<Rightarrow> ''Not a directory''
      | ENOTEMPTY \<Rightarrow> ''Directory not empty''
      | Eother n \<Rightarrow> ''Unknown error '' @ digits_of n)"

text \<open>
  The patterns of this instance are plain texts: a pattern with a parenthesis or a
  bracket does not compile, any other is searched for as it is, letter case ignored on
  request.
\<close>

definition lower :: "char \<Rightarrow> char" where
  "lower c = (if (65::nat) \<le> of_char c \<and> of_char c \<le> (90::nat) then char_of (of_char c + (32::nat)) else c)"

fun toy_search :: "(char \<Rightarrow> char) \<Rightarrow> string \<Rightarrow> string \<Rightarrow> string option" where
  "toy_search f p [] = (if p = [] then Some [] else None)"
| "toy_search f p (x # xs) =
     (if length p \<le> length (x # xs) \<and> map f (take (length p) (x # xs)) = map f p
      then Some (take (length p) (x # xs))
      else toy_search f p xs)"

definition toy_regex :: "bool \<Rightarrow> string \<Rightarrow> (string \<Rightarrow> string option) option" where
  "toy_regex icase p =
     (if \<exists>c \<in> set p. c \<in> set ''()[]'' then None
      else Some (toy_search (if icase then lower else (\<lambda>c. c)) p))"

definition toy_os :: "toy os" where
  "toy_os = \<lparr>
     os_strerror = toy_strerror,
     os_stat = toy_stat,
     os_readdir = toy_readdir,
     os_open_rd = toy_open_rd,
     os_read_all = toy_read_all,
     os_open_wr = toy_open_wr,
     os_write = toy_write,
     os_mkdir = toy_mkdir,
     os_rmdir = toy_rmdir,
     os_unlink = toy_unlink,
     os_rename = toy_rename,
     os_chmod = toy_chmod,
     os_chown = toy_chown,
     os_utime = toy_utime,
     os_time = clock,
     os_chdir = toy_chdir,
     os_getcwd = toy_getcwd,
     os_getenv_HOME = (\<lambda>s. map_of (env_vars s) ''HOME''),
     os_environ = (\<lambda>s. map (\<lambda>e. fst e @ ''='' @ snd e) (env_vars s)),
     os_getpwnam = (\<lambda>s name. map_of (users s) name),
     os_getpwuid = (\<lambda>s u. map_of (map (\<lambda>e. (snd e, fst e)) (users s)) u),
     os_getgrgid = (\<lambda>s g. if g = 0 then Some ''root'' else None),
     os_strftime = (\<lambda>t. ''Jan 01 00:00''),
     os_cin_ignore = (\<lambda>s. s),
     os_regex = toy_regex\<rparr>"

text \<open>A state to run examples in: two directories, four files, one of them on the other device.\<close>

definition toy0 :: toy where
  "toy0 = \<lparr>
     nodes = [([''home''], Dir),
              ([''home'', ''notes.txt''], File (''foo one'' @ [NL] @ ''bar'' @ [NL] @ ''foo two'' @ [NL] @ ''a foo three'')),
              ([''home'', ''lines.txt''], File (''alpha beta'' @ [NL] @ ''gamma'' @ [NL])),
              ([''home'', ''keep.txt''], File ''kept''),
              ([''mnt''], Dir)],
     locked = [[''home'', ''keep.txt'']],
     modes = [],
     owners = [],
     mtimes = [],
     cwd = [''home''],
     clock = 1000,
     env_vars = [(''HOME'', ''/home''), (''SHELL'', ''custom-shell'')],
     users = [(''root'', 0), (''alice'', 1000)]\<rparr>"


text \<open>The same state with the empty directories \<^verbatim>\<open>a\<close>, \<^verbatim>\<open>a/b\<close> and \<^verbatim>\<open>a/b/c\<close> below the working directory.\<close>

definition toy_abc :: toy where
  "toy_abc = toy0\<lparr>nodes := nodes toy0 @
      [([''home'', ''a''], Dir), ([''home'', ''a'', ''b''], Dir), ([''home'', ''a'', ''b'', ''c''], Dir)]\<rparr>"

text \<open>
  The same file system seen through a \<^verbatim>\<open>stat\<close> that reports size 0 for every entry, as
  the \<^verbatim>\<open>proc\<close> file system of Linux does for files that have contents.
\<close>

definition sizeless_os :: "toy os" where
  "sizeless_os =
     toy_os\<lparr>os_stat := (\<lambda>s p. case toy_stat s p of Inl e \<Rightarrow> Inl e | Inr st \<Rightarrow> Inr (st\<lparr>st_size := 0\<rparr>))\<rparr>"

section \<open>Rendering: errors go to the error stream, the newline does not\<close>

text \<open>
  C10. When a command returns status 1 with a non-empty error, the error text is what is
  written to standard error, unchanged, and the newline that follows it is written to
  standard output. The sentinel prefix is looked for in the output of a status-0 result
  only: there it is removed and no newline follows; a status-1 result is written to
  standard error as it is, sentinel prefix included, and under any status other than 0
  the output field, sentinel or not, has no part in what is written.
\<close>

theorem render_error_newline_on_cout:
  "(status r = 1 \<and> error r \<noteq> [] \<longrightarrow>
      render r = \<lparr>to_cout = [CHR 0x0A], to_cerr = error r\<rparr>)
   \<and> (status r = 1 \<longrightarrow> to_cerr (render r) = error r \<and> to_cout (render r) = (if error r = [] then [] else [CHR 0x0A]))
   \<and> (status r \<noteq> 0 \<longrightarrow> render (r\<lparr>output := out'\<rparr>) = render r)
   \<and> (status r = 0 \<and> starts_with NO_NL (output r) \<longrightarrow>
      render r = \<lparr>to_cout = drop 9 (output r), to_cerr = []\<rparr>)"
  by (simp add: render_def NO_NL_def)

theorem render_error_newline_on_cout_witness:
  "render (result 1 [] ''__NO_NL__rmdir: missing operand'')
     = \<lparr>to_cout = [CHR 0x0A], to_cerr = ''__NO_NL__rmdir: missing operand''\<rparr>
   \<and> render (result 0 ''__NO_NL__abc'' []) = \<lparr>to_cout = ''abc'', to_cerr = []\<rparr>"
  using render_error_newline_on_cout [of "result 1 [] ''__NO_NL__rmdir: missing operand''"]
    render_error_newline_on_cout [of "result 0 ''__NO_NL__abc'' []"]
  by (simp add: result_def starts_with_def NO_NL_def)

section \<open>wc: the line count\<close>

lemma wc_char_lines:
  "wc_lines (wc_char c st) = wc_lines st + (if c = NL then 1 else 0)"
  by (simp add: wc_char_def Let_def)

lemma wc_char_last:
  "lastCharWasNewline (wc_char c st) = (c = NL)"
  by (simp add: wc_char_def Let_def)

lemma wc_fold_lines:
  "wc_lines (fold wc_char t st) = wc_lines st + count_list t NL"
  by (induction t arbitrary: st) (simp_all add: wc_char_lines)

lemma wc_fold_last:
  "lastCharWasNewline (fold wc_char t st) = (if t = [] then lastCharWasNewline st else last t = NL)"
  by (induction t arbitrary: st) (simp_all add: wc_char_last)

lemma wc_fold_chunks:
  "fold (\<lambda>chunk st. fold wc_char chunk st) chunks st = fold wc_char (concat chunks) st"
  by (induction chunks arbitrary: st) simp_all

lemma wc_scan_lines:
  "wc_lines (wc_scan chunks) =
     count_list (concat chunks) NL
       + (if concat chunks \<noteq> [] \<and> last (concat chunks) \<noteq> NL then 1 else 0)"
  by (simp add: wc_scan_def Let_def wc_fold_chunks wc_fold_lines wc_fold_last wc_init_def)

text \<open>
  C2, as the code has it. Take a file that \<^verbatim>\<open>stat\<close> does not report with size 0 (the
  test \<^verbatim>\<open>isFileEmpty\<close> that the handler makes before it opens a file), that opens, and
  whose reads deliver the text \<^verbatim>\<open>text\<close> (in chunks of any sizes) up to the end of the
  file. If \<^verbatim>\<open>text\<close> is not empty and does not end in a newline, the line count of the
  scan, and the number \<^verbatim>\<open>wc -l\<close> prints, is the number of newline characters plus one; if
  it ends in a newline, it is the number of newline characters.
\<close>

theorem wc_line_count:
  assumes "\<not> isFileEmpty os s f"
      and "os_open_rd os s f = Inr fd"
      and "os_read_all os s fd 4096 = (chunks, None)"
      and "text = concat chunks" and "text \<noteq> []"
      and "f \<notin> {''-l'', ''-w'', ''-c''}"
  shows "wc_lines (wc_scan chunks) = count_list text NL + (if last text = NL then 0 else 1)
       \<and> wcCommand os s [''-l'', f] =
           (Returned (result 0 (to_string (int (count_list text NL + (if last text = NL then 0 else 1))) @ '' '' @ f) []), s)"
proof -
  have l: "wc_lines (wc_scan chunks) = count_list text NL + (if last text = NL then 0 else 1)"
    using assms(4,5) by (simp add: wc_scan_lines)
  have "wcCommand os s [''-l'', f] =
           (Returned (result 0 (to_string (int (count_list text NL + (if last text = NL then 0 else 1))) @ '' '' @ f) []), s)"
    using assms(1,2,3,6) l
    by (simp add: wcCommand_def wc_arg_def wc_row_def stripTrailingNewline_def NL_def)
  with l show ?thesis by simp
qed

theorem wc_line_count_witness:
  "\<not> isFileEmpty toy_os toy0 ''notes.txt''
   \<and> wcCommand toy_os toy0 [''-l'', ''notes.txt''] = (Returned (result 0 ''4 notes.txt'' []), toy0)
   \<and> wcCommand toy_os toy0 [''-l'', ''lines.txt''] = (Returned (result 0 ''2 lines.txt'' []), toy0)"
proof -
  have a1: "\<not> isFileEmpty toy_os toy0 ''notes.txt''" by code_simp
  have a2: "os_open_rd toy_os toy0 ''notes.txt'' = Inr 2" by code_simp
  have a3: "os_read_all toy_os toy0 2 4096 =
      ([''foo one'' @ [NL], ''bar'' @ [NL] @ ''foo '', ''two'' @ [NL] @ ''a fo'', ''o three''], None)"
    by code_simp
  have b1: "\<not> isFileEmpty toy_os toy0 ''lines.txt''" by code_simp
  have b2: "os_open_rd toy_os toy0 ''lines.txt'' = Inr 3" by code_simp
  have b3: "os_read_all toy_os toy0 3 4096 = ([''alpha be'', ''ta'' @ [NL] @ ''gamma'', [NL]], None)"
    by code_simp
  have d: "digits_of 4 = ''4''" "digits_of 2 = ''2''" by code_simp+
  show ?thesis
    using a1 wc_line_count [OF a1 a2 a3 refl] wc_line_count [OF b1 b2 b3 refl] d
    by (simp add: NL_def to_string_def)
qed

text \<open>
  The claim as it was stated, on a file whose contents end in a newline and hold two of
  them, but which \<^verbatim>\<open>stat\<close> reports with size 0: the handler prints 0 without reading it.
\<close>

theorem wc_size_zero_counterexample:
  "os_open_rd sizeless_os toy0 ''lines.txt'' = Inr 3
   \<and> concat (fst (os_read_all sizeless_os toy0 3 4096)) = ''alpha beta'' @ [NL] @ ''gamma'' @ [NL]
   \<and> count_list (''alpha beta'' @ [NL] @ ''gamma'' @ [NL]) NL = 2
   \<and> last (''alpha beta'' @ [NL] @ ''gamma'' @ [NL]) = NL
   \<and> wcCommand sizeless_os toy0 [''-l'', ''lines.txt''] = (Returned (result 0 ''0 lines.txt'' []), toy0)
   \<and> fst (wcCommand sizeless_os toy0 [''-l'', ''lines.txt'']) \<noteq> Returned (result 0 ''2 lines.txt'' [])"
  by code_simp

section \<open>rmdir -p: the walk towards the root\<close>

lemma strip_slashes_eq:
  "strip_slashes p = rev (dropWhile (\<lambda>c. c = CHR ''/'') (rev p))"
proof (induction p rule: strip_slashes.induct)
  case (1 path)
  show ?case
  proof (cases "path \<noteq> [] \<and> last path = CHR ''/''")
    case True
    then obtain ys where ys: "path = ys @ [CHR ''/'']"
      by (cases path rule: rev_cases) auto
    with True 1 show ?thesis
      by (subst strip_slashes.simps) simp
  next
    case False
    then show ?thesis
      by (subst strip_slashes.simps) (cases path rule: rev_cases, auto)
  qed
qed

lemma filter_rev_upt_tail:
  "filter P (rev [0..<n]) = pos # rest \<Longrightarrow> rest = filter P (rev [0..<pos])"
  by (induction n) (auto split: if_splits)

lemma slash_positions_step:
  assumes "find_last_of ''/'' p = Some pos"
  shows "rev (slash_positions p) = pos # rev (slash_positions (take pos p))"
proof -
  from assms obtain rest where f: "filter (\<lambda>i. p ! i = CHR ''/'') (rev [0..<length p]) = pos # rest"
    by (auto simp: find_last_of_def split: list.splits)
  have lt: "pos < length p" using assms by (rule find_last_of_less)
  have "rest = filter (\<lambda>i. p ! i = CHR ''/'') (rev [0..<pos])"
    using f by (rule filter_rev_upt_tail)
  also have "\<dots> = filter (\<lambda>i. take pos p ! i = CHR ''/'') (rev [0..<pos])"
    by (rule filter_cong) auto
  finally show ?thesis
    using f lt by (simp add: slash_positions_def rev_filter min_def)
qed

lemma slash_positions_none:
  "find_last_of ''/'' p = None \<Longrightarrow> slash_positions p = []"
  by (auto simp: find_last_of_def slash_positions_def rev_filter [symmetric] split: list.splits)

lemma slash_positions_less: "i \<in> set (slash_positions p) \<Longrightarrow> i < length p"
  by (simp add: slash_positions_def)

lemma ancestors_upward_step:
  assumes "find_last_of ''/'' p = Some pos"
  shows "ancestors_upward p =
           (if take pos p = [] \<or> take pos p = ''/'' then []
            else take pos p # ancestors_upward (take pos p))"
proof -
  have lt: "pos < length p" using assms by (rule find_last_of_less)
  have M: "map (\<lambda>i. take i (take pos p)) (rev (slash_positions (take pos p)))
         = map (\<lambda>i. take i p) (rev (slash_positions (take pos p)))"
    using lt by (auto dest!: slash_positions_less simp: min_def)
  have A: "ancestors_upward (take pos p) =
             takeWhile (\<lambda>a. a \<noteq> [] \<and> a \<noteq> ''/'') (map (\<lambda>i. take i p) (rev (slash_positions (take pos p))))"
    by (simp only: ancestors_upward_def M)
  have B: "ancestors_upward p =
             takeWhile (\<lambda>a. a \<noteq> [] \<and> a \<noteq> ''/'')
               (take pos p # map (\<lambda>i. take i p) (rev (slash_positions (take pos p))))"
    by (simp only: ancestors_upward_def slash_positions_step [OF assms] list.map)
  show ?thesis unfolding A B by simp
qed

lemma rmdir_p_loop_walk:
  "rmdir_p_loop os s p =
     (case rmdir_each os s (if p = [] then [] else p # ancestors_upward p) of
        (None, s') \<Rightarrow> (result 0 [] [], s')
      | (Some (e, x), s') \<Rightarrow> (result 1 [] (formatRmdirErrorMsg os e x), s'))"
proof (induction os s p rule: rmdir_p_loop.induct)
  case (1 os s path)
  show ?case
  proof (cases "path = []")
    case True
    then show ?thesis by (subst rmdir_p_loop.simps) simp
  next
    case ne: False
    obtain r s' where rm: "os_rmdir os s path = (r, s')" by (cases "os_rmdir os s path")
    show ?thesis
    proof (cases r)
      case (Some e)
      with ne rm show ?thesis by (subst rmdir_p_loop.simps) simp
    next
      case None
      show ?thesis
      proof (cases "find_last_of ''/'' path")
        case n: None
        with ne rm None show ?thesis
          by (subst rmdir_p_loop.simps) (simp add: ancestors_upward_def slash_positions_none)
      next
        case (Some pos)
        show ?thesis
        proof (cases "take pos path = [] \<or> take pos path = ''/''")
          case True
          with ne rm None Some show ?thesis
            by (subst rmdir_p_loop.simps) (simp add: ancestors_upward_step)
        next
          case False
          have ih: "rmdir_p_loop os s' (take pos path) =
            (case rmdir_each os s' (take pos path # ancestors_upward (take pos path)) of
               (None, s') \<Rightarrow> (result 0 [] [], s')
             | (Some (e, x), s') \<Rightarrow> (result 1 [] (formatRmdirErrorMsg os e x), s'))"
            using "1.IH" [OF ne rm [symmetric] None Some False] False by simp
          show ?thesis
            using ne rm None Some False ih
            by (subst rmdir_p_loop.simps) (simp add: ancestors_upward_step)
        qed
      qed
    qed
  qed
qed

text \<open>
  C6. For a non-empty path (an empty one is refused with \<^verbatim>\<open>rmdir: no path specified\<close>),
  \<^verbatim>\<open>rmdir -p path\<close> is the removal, one after the other, of the
  paths of \<^verbatim>\<open>rmdir_walk path\<close>: the path without its trailing slashes, then its ancestors
  from the innermost outwards, ending before an empty path or the root, and stopping at
  the first \<^verbatim>\<open>rmdir\<close> that fails. A failure is reported for the path it happened on, with
  a text of its own for a directory that is not empty, a path that is not found, a path
  that is no directory, and a missing permission.
\<close>

theorem rmdir_p_walks_upward:
  assumes "path \<noteq> []"
  shows "rmdirCommand os s [''-p'', path] = rmdir_report os (rmdir_each os s (rmdir_walk path))
       \<and> rmdirCommand os s [''-p'', []] = (Returned (result 1 [] ''rmdir: no path specified''), s)
       \<and> formatRmdirErrorMsg os ENOTEMPTY x = ''rmdir: failed to remove '' @ q x @ '': directory not empty''
       \<and> formatRmdirErrorMsg os ENOENT x = ''rmdir: failed to remove '' @ q x @ '': no such file or directory''
       \<and> formatRmdirErrorMsg os ENOTDIR x = ''rmdir: failed to remove '' @ q x @ '': not a directory''
       \<and> formatRmdirErrorMsg os EACCES x = ''rmdir: failed to remove '' @ q x @ '': permission denied''
       \<and> formatRmdirErrorMsg os EPERM x = ''rmdir: failed to remove '' @ q x @ '': permission denied''"
proof -
  have "rmdirCommand os s [''-p'', path] = rmdir_report os (rmdir_each os s (rmdir_walk path))"
    using assms
    by (simp add: rmdirCommand_def rmdir_report_def rmdir_walk_def Let_def rmdir_p_loop_walk strip_slashes_eq
          split: prod.splits option.splits)
  moreover have "rmdirCommand os s [''-p'', []] = (Returned (result 1 [] ''rmdir: no path specified''), s)"
    by (simp add: rmdirCommand_def)
  ultimately show ?thesis by (simp add: formatRmdirErrorMsg_def q_def)
qed

theorem rmdir_p_walks_upward_witness:
  "rmdir_walk ''a/b/c/'' = [''a/b/c'', ''a/b'', ''a'']
   \<and> rmdirCommand toy_os toy_abc [''-p'', ''a/b/c/''] = (Returned (result 0 [] []), toy0)
   \<and> rmdir_walk ''/home/a//'' = [''/home/a'', ''/home'']
   \<and> rmdirCommand toy_os toy_abc [''-p'', ''/home/a//'']
       = (Returned (result 1 [] (''rmdir: failed to remove '' @ q ''/home/a'' @ '': directory not empty'')), toy_abc)"
proof -
  have w1: "rmdir_walk ''a/b/c/'' = [''a/b/c'', ''a/b'', ''a'']" by code_simp
  have w2: "rmdir_walk ''/home/a//'' = [''/home/a'', ''/home'']" by code_simp
  have e1: "rmdir_report toy_os (rmdir_each toy_os toy_abc [''a/b/c'', ''a/b'', ''a''])
              = (Returned (result 0 [] []), toy0)"
    by code_simp
  have e2: "rmdir_report toy_os (rmdir_each toy_os toy_abc [''/home/a'', ''/home''])
              = (Returned (result 1 [] (''rmdir: failed to remove '' @ q ''/home/a'' @ '': directory not empty'')), toy_abc)"
    by code_simp
  have n1: "''a/b/c/'' \<noteq> []" and n2: "''/home/a//'' \<noteq> []" by simp_all
  show ?thesis
    using rmdir_p_walks_upward [OF n1, of toy_os toy_abc] rmdir_p_walks_upward [OF n2, of toy_os toy_abc] w1 w2 e1 e2
    by simp
qed

section \<open>mkdir -p: the second run\<close>

lemma mkdir_created_exists:
  "mkdir_keeps_directories os \<Longrightarrow> os_mkdir os s p = (None, s') \<Longrightarrow> mkdir_exists os s' p"
  by (simp add: mkdir_keeps_directories_def)

lemma mkdir_others_stay:
  "mkdir_keeps_directories os \<Longrightarrow> os_mkdir os s p = (None, s') \<Longrightarrow> mkdir_exists os s x \<Longrightarrow> mkdir_exists os s' x"
  by (simp add: mkdir_keeps_directories_def)

lemma mkdir_failed_state:
  "mkdir_failure_keeps_state os \<Longrightarrow> os_mkdir os s p = (Some e, s') \<Longrightarrow> s' = s"
  by (simp add: mkdir_failure_keeps_state_def)

lemma mkdir_exists_iff:
  "mkdir_failure_keeps_state os \<Longrightarrow> mkdir_exists os s p \<longleftrightarrow> os_mkdir os s p = (Some EEXIST, s)"
  by (cases "os_mkdir os s p") (auto simp: mkdir_exists_def mkdir_failure_keeps_state_def)

text \<open>One step of the loop, seen from outside: what mkdir on one prefix leaves behind when the loop goes on.\<close>

lemma mkdir_step_cases:
  assumes "mkdir_failure_keeps_state os" and "mkdir_keeps_directories os"
      and "os_mkdir os s p = (r, s')" and "r = None \<or> r = Some EEXIST"
  shows "mkdir_exists os s' p \<and> (\<forall>x. mkdir_exists os s x \<longrightarrow> mkdir_exists os s' x)"
proof (cases r)
  case None
  with assms show ?thesis by (auto intro: mkdir_created_exists mkdir_others_stay)
next
  case (Some e)
  with assms have "e = EEXIST" "s' = s" by (auto dest: mkdir_failed_state)
  with assms Some show ?thesis by (simp add: mkdir_exists_def)
qed

lemma mkdir_p_chars_first_run:
  assumes fk: "mkdir_failure_keeps_state os" and kd: "mkdir_keeps_directories os"
  shows "mkdir_p_chars os s partial rest = (None, s1) \<Longrightarrow>
         (\<forall>x. mkdir_exists os s x \<longrightarrow> mkdir_exists os s1 x)
         \<and> (\<forall>x \<in> set (mkdir_attempts partial rest). mkdir_exists os s1 x)"
proof (induction rest arbitrary: s partial)
  case Nil
  then show ?case by simp
next
  case (Cons c rest)
  show ?case
  proof (cases "(c \<noteq> CHR ''/'' \<and> rest \<noteq> []) \<or> partial @ [c] = ''/'' \<or> partial @ [c] = ''//''")
    case True
    then have "mkdir_p_chars os s (partial @ [c]) rest = (None, s1)"
      using Cons.prems by (auto split: if_splits)
    from Cons.IH [OF this] True show ?thesis by auto
  next
    case False
    obtain r s' where m: "os_mkdir os s (partial @ [c]) = (r, s')"
      by (cases "os_mkdir os s (partial @ [c])")
    have r: "r = None \<or> r = Some EEXIST"
      using Cons.prems False m by (cases r) (auto split: if_splits)
    have go: "mkdir_p_chars os s' (partial @ [c]) rest = (None, s1)"
      using Cons.prems False m r by (auto split: if_splits)
    note st = mkdir_step_cases [OF fk kd m r]
    note ih = Cons.IH [OF go]
    from st ih False show ?thesis by auto
  qed
qed

lemma mkdir_p_chars_second_run:
  assumes fk: "mkdir_failure_keeps_state os"
  shows "\<forall>x \<in> set (mkdir_attempts partial rest). mkdir_exists os s x \<Longrightarrow>
         mkdir_p_chars os s partial rest = (None, s)"
proof (induction rest arbitrary: partial)
  case Nil
  then show ?case by simp
next
  case (Cons c rest)
  show ?case
  proof (cases "(c \<noteq> CHR ''/'' \<and> rest \<noteq> []) \<or> partial @ [c] = ''/'' \<or> partial @ [c] = ''//''")
    case True
    then have "\<forall>x \<in> set (mkdir_attempts (partial @ [c]) rest). mkdir_exists os s x"
      using Cons.prems by (auto split: if_splits)
    from Cons.IH [OF this] True show ?thesis by auto
  next
    case False
    then have e: "mkdir_exists os s (partial @ [c])"
      and a: "\<forall>x \<in> set (mkdir_attempts (partial @ [c]) rest). mkdir_exists os s x"
      using Cons.prems by auto
    from e have "os_mkdir os s (partial @ [c]) = (Some EEXIST, s)"
      using fk by (simp add: mkdir_exists_iff)
    with Cons.IH [OF a] False show ?thesis by auto
  qed
qed

lemma mkdir_p_chars_error_status:
  "mkdir_p_chars os s partial rest = (Some x, s') \<Longrightarrow> status x = 1"
  by (induction rest arbitrary: s partial)
     (auto simp: mkdir_error_def result_def split: if_splits prod.splits option.splits)

lemma mkdir_paths_first_run:
  assumes fk: "mkdir_failure_keeps_state os" and kd: "mkdir_keeps_directories os"
  shows "mkdir_paths os s True paths = (result 0 [] [], s1) \<Longrightarrow>
         (\<forall>x. mkdir_exists os s x \<longrightarrow> mkdir_exists os s1 x)
         \<and> (\<forall>p \<in> set paths. \<forall>x \<in> set (mkdir_attempts [] p). mkdir_exists os s1 x)"
proof (induction paths arbitrary: s)
  case Nil
  then show ?case by simp
next
  case (Cons p paths)
  obtain r s' where c: "mkdir_p_chars os s [] p = (r, s')" by (cases "mkdir_p_chars os s [] p")
  have r: "r = None"
  proof (cases r)
    case (Some x)
    then have "x = result 0 [] []" using Cons.prems c by simp
    moreover have "status x = 1"
      using c Some by (auto dest: mkdir_p_chars_error_status)
    ultimately show ?thesis by (simp add: result_def)
  qed simp
  have go: "mkdir_paths os s' True paths = (result 0 [] [], s1)"
    using Cons.prems c r by simp
  note a = mkdir_p_chars_first_run [OF fk kd c [unfolded r]]
  note ih = Cons.IH [OF go]
  from a ih show ?case by auto
qed

lemma mkdir_paths_second_run:
  assumes fk: "mkdir_failure_keeps_state os"
  shows "\<forall>p \<in> set paths. \<forall>x \<in> set (mkdir_attempts [] p). mkdir_exists os s x \<Longrightarrow>
         mkdir_paths os s True paths = (result 0 [] [], s)"
  using mkdir_p_chars_second_run [OF fk]
  by (induction paths) auto

lemma mkdir_flags_recurse:
  "mkdir_flags args True = Inr (r, paths) \<Longrightarrow> r"
  by (induction args) (auto split: if_splits)

lemma toy_mkdir_exists:
  "mkdir_exists toy_os s p \<longleftrightarrow> p \<noteq> [] \<and> (toy_key s p = [] \<or> map_of (nodes s) (toy_key s p) \<noteq> None)"
  by (auto simp: mkdir_exists_def toy_os_def toy_mkdir_def Let_def)

lemma toy_key_nodes: "toy_key (s\<lparr>nodes := n\<rparr>) p = toy_key s p"
  by (simp add: toy_key_def)

lemma toy_mkdir_laws:
  "mkdir_failure_keeps_state toy_os \<and> mkdir_keeps_directories toy_os"
proof -
  have a: "mkdir_failure_keeps_state toy_os"
    by (auto simp: mkdir_failure_keeps_state_def toy_os_def toy_mkdir_def Let_def split: if_splits)
  have b: "mkdir_exists toy_os s' p \<and> (\<forall>x. mkdir_exists toy_os s x \<longrightarrow> mkdir_exists toy_os s' x)"
    if "os_mkdir toy_os s p = (None, s')" for s p s'
  proof -
    from that have s': "s' = s\<lparr>nodes := nodes s @ [(toy_key s p, Dir)]\<rparr>" and p: "p \<noteq> []"
      by (auto simp: toy_os_def toy_mkdir_def Let_def split: if_splits)
    show ?thesis
      unfolding toy_mkdir_exists s' using p by (auto simp: toy_key_nodes)
  qed
  from a b show ?thesis unfolding mkdir_keeps_directories_def by blast
qed

text \<open>
  C3. On a system where a failed \<^verbatim>\<open>mkdir\<close> changes nothing and a successful one keeps
  what existed, a second run of \<^verbatim>\<open>mkdir -p\<close> on the same paths, started in the state the
  first, successful run has left, returns status 0 as well and leaves that state as it
  is: it creates nothing and changes nothing.
\<close>

theorem mkdir_p_idempotent:
  assumes fk: "mkdir_failure_keeps_state os" and kd: "mkdir_keeps_directories os"
      and first: "mkdirCommand os s (''-p'' # paths) = (Returned (result 0 [] []), s1)"
  shows "mkdirCommand os s1 (''-p'' # paths) = (Returned (result 0 [] []), s1)"
proof -
  obtain r ps where fl: "mkdir_flags paths True = Inr (r, ps)" and ne: "ps \<noteq> []"
    using first
    by (auto simp: mkdirCommand_def first_is_def result_def split: sum.splits if_splits prod.splits)
  have r: "r" using fl by (rule mkdir_flags_recurse)
  have run1: "mkdir_paths os s True ps = (result 0 [] [], s1)"
    using first fl ne r
    by (auto simp: mkdirCommand_def first_is_def split: prod.splits)
  have "\<forall>p \<in> set ps. \<forall>x \<in> set (mkdir_attempts [] p). mkdir_exists os s1 x"
    using mkdir_paths_first_run [OF fk kd run1] by simp
  then have "mkdir_paths os s1 True ps = (result 0 [] [], s1)"
    by (rule mkdir_paths_second_run [OF fk])
  then show ?thesis
    using fl ne r by (simp add: mkdirCommand_def first_is_def)
qed

theorem mkdir_p_idempotent_witness:
  "mkdir_failure_keeps_state toy_os \<and> mkdir_keeps_directories toy_os
   \<and> mkdirCommand toy_os toy0 [''-p'', ''a/b/c''] = (Returned (result 0 [] []), toy_abc)
   \<and> mkdirCommand toy_os toy_abc [''-p'', ''a/b/c''] = (Returned (result 0 [] []), toy_abc)"
proof -
  have first: "mkdirCommand toy_os toy0 (''-p'' # [''a/b/c'']) = (Returned (result 0 [] []), toy_abc)"
    by code_simp
  from toy_mkdir_laws have fk: "mkdir_failure_keeps_state toy_os" and kd: "mkdir_keeps_directories toy_os"
    by simp_all
  from mkdir_p_idempotent [OF fk kd first] first fk kd show ?thesis by simp
qed

section \<open>cp: several sources need a directory\<close>

text \<open>
  C5. With two or more sources (three or more arguments) and a last argument that is
  not an existing directory, \<^verbatim>\<open>cp\<close> returns status 1 with the error
  \<^verbatim>\<open>cp: target '...' is not a directory\<close>, and the state of the system is the one it
  started in, whatever opening, creating and writing files would do: none of it happens.
\<close>

theorem cp_many_to_nondir:
  assumes "3 \<le> length args" and "\<not> stat_is_dir os s (last args)"
  shows "cpCommand os s args =
           (Returned (result 1 [] (''cp: target '' @ q (last args) @ '' is not a directory'')), s)"
  using assms by (auto simp: cpCommand_def Let_def)

theorem cp_many_to_nondir_witness:
  "\<not> stat_is_dir toy_os toy0 ''keep.txt''
   \<and> cpCommand toy_os toy0 [''notes.txt'', ''lines.txt'', ''keep.txt'']
       = (Returned (result 1 [] ''cp: target 'keep.txt' is not a directory''), toy0)"
proof -
  have a: "\<not> stat_is_dir toy_os toy0 (last [''notes.txt'', ''lines.txt'', ''keep.txt''])" by code_simp
  from cp_many_to_nondir [OF _ a] a show ?thesis by (simp add: q_def)
qed

section \<open>mv: the fallback across devices\<close>



section \<open>chmod: what is taken for a mode\<close>

text \<open>
  C7. \<^verbatim>\<open>chmod 7x notes.txt\<close>: the token \<^verbatim>\<open>7x\<close> is no octal numeral, yet \<^verbatim>\<open>stoi\<close> reads
  its leading digit and ignores the rest, so the handler calls \<^verbatim>\<open>chmod\<close> with mode 7 and
  returns status 0 where an invalid-permissions error was due. The same holds on every
  system for every file: the result is that of \<^verbatim>\<open>chmod\<close> with mode 7.
\<close>

theorem chmod_accepts_trailing_text:
  "stoi 8 ''7x'' = Inr 7
   \<and> chmodCommand toy_os toy0 [''7x'', ''notes.txt'']
       = (Returned (result 0 [] []), toy0\<lparr>modes := [([''home'', ''notes.txt''], 7)]\<rparr>)
   \<and> chmodCommand os s [''7x'', f]
       = (case os_chmod os s f 7 of
            (Some e, s') \<Rightarrow>
              (Returned (result 1 [] (''chmod: failed to change permissions for '' @ q f @ '': '' @ os_strerror os e)), s')
          | (None, s') \<Rightarrow> (Returned (result 0 [] []), s'))"
proof -
  have a: "stoi 8 ''7x'' = Inr 7" by code_simp
  have b: "chmodCommand toy_os toy0 [''7x'', ''notes.txt'']
       = (Returned (result 0 [] []), toy0\<lparr>modes := [([''home'', ''notes.txt''], 7)]\<rparr>)"
    by code_simp
  have c: "chmodCommand os s [''7x'', f]
       = (case os_chmod os s f 7 of
            (Some e, s') \<Rightarrow>
              (Returned (result 1 [] (''chmod: failed to change permissions for '' @ q f @ '': '' @ os_strerror os e)), s')
          | (None, s') \<Rightarrow> (Returned (result 0 [] []), s'))"
    using a by (simp add: chmodCommand_def q_def split: prod.splits option.splits)
  from a b c show ?thesis by (intro conjI)
qed

section \<open>grep: the read loop goes line by line\<close>

lemma splitc_Cons: "splitc c xs \<noteq> []"
  by (induction xs) (auto split: list.splits)

lemma splitc_no_sep: "c \<notin> set xs \<Longrightarrow> splitc c xs = [xs]"
  by (induction xs) auto

lemma splitc_sep:
  "c \<in> set xs \<Longrightarrow> splitc c xs = takeWhile (\<lambda>x. x \<noteq> c) xs # splitc c (tl (dropWhile (\<lambda>x. x \<noteq> c) xs))"
  by (induction xs) (auto split: list.splits simp: splitc_Cons)

lemma grep_drain_lines:
  "grep_drain opts re mf f b n st =
     (case grep_lines opts re mf f (butlast (splitc NL b)) n st of
        Inl r \<Rightarrow> Inl r
      | Inr st' \<Rightarrow> Inr (last (splitc NL b), n + int (length (splitc NL b)) - 1, st'))"
proof (induction opts re mf f b n st rule: grep_drain.induct)
  case (1 opts re mf f b n st)
  show ?case
  proof (cases "NL \<in> set b")
    case False
    then show ?thesis by (subst grep_drain.simps) (simp add: splitc_no_sep)
  next
    case True
    show ?thesis
    proof (cases "grep_line opts re mf f n (takeWhile (\<lambda>c. c \<noteq> NL) b) st")
      case (Inl r)
      with True show ?thesis
        by (subst grep_drain.simps) (simp add: splitc_sep splitc_Cons)
    next
      case (Inr st')
      with True "1.IH" [OF True Inr] show ?thesis
        by (subst grep_drain.simps) (simp add: splitc_sep splitc_Cons split: sum.splits)
    qed
  qed
qed

lemma grep_drain_append:
  "grep_drain opts re mf f (b @ c) n st =
     (case grep_drain opts re mf f b n st of
        Inl r \<Rightarrow> Inl r
      | Inr (b', n', st') \<Rightarrow> grep_drain opts re mf f (b' @ c) n' st')"
proof (induction opts re mf f b n st rule: grep_drain.induct)
  case (1 opts re mf f b n st)
  show ?case
  proof (cases "NL \<in> set b")
    case False
    have "grep_drain opts re mf f b n st = Inr (b, n, st)"
      using False by (subst grep_drain.simps) simp
    then show ?thesis by simp
  next
    case True
    then have tw: "takeWhile (\<lambda>c. c \<noteq> NL) (b @ c) = takeWhile (\<lambda>c. c \<noteq> NL) b"
      and dw: "tl (dropWhile (\<lambda>c. c \<noteq> NL) (b @ c)) = tl (dropWhile (\<lambda>c. c \<noteq> NL) b) @ c"
      by (induction b) auto
    have L: "grep_drain opts re mf f (b @ c) n st =
        (case grep_line opts re mf f n (takeWhile (\<lambda>c. c \<noteq> NL) b) st of
           Inl r \<Rightarrow> Inl r
         | Inr st' \<Rightarrow> grep_drain opts re mf f (tl (dropWhile (\<lambda>c. c \<noteq> NL) b) @ c) (n + 1) st')"
      using True by (subst grep_drain.simps) (simp add: tw dw split: sum.splits)
    have R: "grep_drain opts re mf f b n st =
        (case grep_line opts re mf f n (takeWhile (\<lambda>c. c \<noteq> NL) b) st of
           Inl r \<Rightarrow> Inl r
         | Inr st' \<Rightarrow> grep_drain opts re mf f (tl (dropWhile (\<lambda>c. c \<noteq> NL) b)) (n + 1) st')"
      using True by (subst grep_drain.simps) simp
    show ?thesis
    proof (cases "grep_line opts re mf f n (takeWhile (\<lambda>c. c \<noteq> NL) b) st")
      case (Inl r)
      then show ?thesis unfolding L R by simp
    next
      case (Inr st')
      from "1.IH" [OF True Inr] Inr show ?thesis unfolding L R by simp
    qed
  qed
qed

lemma grep_drain_no_newline:
  "NL \<notin> set b \<Longrightarrow> grep_drain opts re mf f b n st = Inr (b, n, st)"
  by (subst grep_drain.simps) simp

lemma grep_drain_leaves_no_newline:
  "grep_drain opts re mf f b n st = Inr (b', n', st') \<Longrightarrow> NL \<notin> set b'"
proof (induction opts re mf f b n st rule: grep_drain.induct)
  case (1 opts re mf f b n st)
  show ?case
  proof (cases "NL \<in> set b")
    case False
    with "1.prems" show ?thesis by (subst (asm) grep_drain.simps) simp
  next
    case True
    with "1.prems" obtain st1 where
      l: "grep_line opts re mf f n (takeWhile (\<lambda>c. c \<noteq> NL) b) st = Inr st1"
      and d: "grep_drain opts re mf f (tl (dropWhile (\<lambda>c. c \<noteq> NL) b)) (n + 1) st1 = Inr (b', n', st')"
      by (subst (asm) grep_drain.simps) (auto split: sum.splits)
    from "1.IH" [OF True l d] show ?thesis .
  qed
qed

lemma grep_chunks_drain:
  "NL \<notin> set b \<Longrightarrow>
   grep_chunks opts re mf f chunks b n st = grep_drain opts re mf f (b @ concat chunks) n st"
proof (induction chunks arbitrary: b n st)
  case Nil
  then show ?case by (simp add: grep_drain_no_newline)
next
  case (Cons c chunks)
  show ?case
  proof (cases "grep_drain opts re mf f (b @ c) n st")
    case (Inl r)
    then show ?thesis
      using grep_drain_append [of opts re mf f "b @ c" "concat chunks" n st] by simp
  next
    case (Inr x)
    obtain b' n' st' where x: "x = (b', n', st')" by (cases x)
    from Inr x have "NL \<notin> set b'" by (auto dest: grep_drain_leaves_no_newline)
    from Cons.IH [OF this] Inr x show ?thesis
      using grep_drain_append [of opts re mf f "b @ c" "concat chunks" n st] by simp
  qed
qed

lemma splitc_length: "1 + int (length (splitc c xs) - Suc 0) = int (length (splitc c xs))"
  by (cases "splitc c xs") (auto simp: splitc_Cons)

lemma text_lines_split:
  "text_lines t = butlast (splitc NL t) @ (if last (splitc NL t) = [] then [] else [last (splitc NL t)])"
  by (simp add: text_lines_def Let_def splitc_Cons)

lemma grep_lines_append:
  "grep_lines opts re mf f (xs @ ys) n st =
     (case grep_lines opts re mf f xs n st of
        Inl r \<Rightarrow> Inl r
      | Inr st' \<Rightarrow> grep_lines opts re mf f ys (n + int (length xs)) st')"
  by (induction xs arbitrary: n st) (auto split: sum.splits simp: algebra_simps)

lemma grep_file_lines:
  "grep_file os s opts re mf file st =
     (case file_text os s file of
        None \<Rightarrow> Inl (result 1 [] (''grep: cannot open file '' @ q file))
      | Some t \<Rightarrow> grep_lines opts re mf file (text_lines t) 1 st)"
proof (cases "os_open_rd os s file")
  case (Inl e)
  then show ?thesis by (simp add: grep_file_def file_text_def)
next
  case (Inr fd)
  define t where "t = concat (fst (os_read_all os s fd 1024))"
  have ft: "file_text os s file = Some t" using Inr by (simp add: file_text_def t_def)
  have ch: "grep_chunks opts re mf file (fst (os_read_all os s fd 1024)) [] 1 st
          = grep_drain opts re mf file t 1 st"
    using grep_chunks_drain [of "[]"] by (simp add: t_def)
  show ?thesis
    unfolding grep_file_def ft using Inr
    by (simp add: ch grep_drain_lines text_lines_split grep_lines_append splitc_Cons splitc_length
          split: sum.splits)
qed

lemma grep_line_not_selected:
  "\<not> selected opts re l \<Longrightarrow> grep_line opts re mf f n l st = Inr st"
  by (cases st) (auto simp: grep_line_def selected_def matchesPattern_def Let_def split: option.splits)

lemma grep_lines_none_selected:
  "\<forall>l \<in> set ls. \<not> selected opts re l \<Longrightarrow> grep_lines opts re mf f ls n st = Inr st"
  by (induction ls arbitrary: n) (simp_all add: grep_line_not_selected)

lemma files_lines_Cons:
  "files_lines os s (f # fs) =
     map (\<lambda>l. (f, l)) (case file_text os s f of None \<Rightarrow> [] | Some t \<Rightarrow> text_lines t) @ files_lines os s fs"
  by (simp add: files_lines_def)

lemma grep_files_none_selected:
  "\<forall>f \<in> set files. file_text os s f \<noteq> None \<Longrightarrow> selected_lines os s opts re files = [] \<Longrightarrow>
   grep_files os s opts re mf files st = Inr st"
proof (induction files)
  case Nil
  then show ?case by simp
next
  case (Cons f files)
  from Cons.prems obtain t where t: "file_text os s f = Some t" by auto
  from Cons.prems t have a: "\<forall>l \<in> set (text_lines t). \<not> selected opts re l"
    and b: "selected_lines os s opts re files = []"
    by (auto simp: selected_lines_def files_lines_Cons filter_empty_conv)
  from Cons.IH [OF _ b] Cons.prems(1) t a show ?case
    by (simp add: grep_file_lines grep_lines_none_selected)
qed

section \<open>grep: no line selected\<close>

text \<open>
  C8. Let the arguments of \<^verbatim>\<open>grep\<close> parse into options without \<^verbatim>\<open>-c\<close>, a pattern that
  compiles and files that all open. If no line of the files is selected (none matches,
  or under \<^verbatim>\<open>-v\<close> every line matches), the result is status 1 with empty output and
  empty error, and nothing has changed.
\<close>

theorem grep_silent_no_match:
  assumes "grep_parse args = Inr (opts, pattern, files)"
      and "\<not> opt_c opts"
      and "os_regex os (opt_i opts) (grep_pattern opts pattern) = Some re"
      and "\<forall>f \<in> set files. file_text os s f \<noteq> None"
      and "selected_lines os s opts re files = []"
  shows "grepCommand os s args = (Returned (result 1 [] []), s)"
  using assms by (simp add: grepCommand_def grep_run_def grep_files_none_selected)


theorem grep_silent_no_match_witness:
  "grep_parse [''-n'', ''zzz'', ''notes.txt'', ''lines.txt''] = Inr (grep_opts0\<lparr>opt_n := True\<rparr>, ''zzz'', [''notes.txt'', ''lines.txt''])
   \<and> grepCommand toy_os toy0 [''-n'', ''zzz'', ''notes.txt'', ''lines.txt''] = (Returned (result 1 [] []), toy0)"
proof -
  have p: "grep_parse [''-n'', ''zzz'', ''notes.txt'', ''lines.txt'']
             = Inr (grep_opts0\<lparr>opt_n := True\<rparr>, ''zzz'', [''notes.txt'', ''lines.txt''])"
    by code_simp
  have c: "\<not> opt_c (grep_opts0\<lparr>opt_n := True\<rparr>)" by (simp add: grep_opts0_def)
  have re: "os_regex toy_os (opt_i (grep_opts0\<lparr>opt_n := True\<rparr>)) (grep_pattern (grep_opts0\<lparr>opt_n := True\<rparr>) ''zzz'')
             = Some (toy_search (\<lambda>c. c) ''zzz'')"
    by (simp add: toy_os_def toy_regex_def grep_opts0_def grep_pattern_def)
  have f1: "file_text toy_os toy0 ''notes.txt'' \<noteq> None" by code_simp
  have f2: "file_text toy_os toy0 ''lines.txt'' \<noteq> None" by code_simp
  have f: "\<forall>f \<in> set [''notes.txt'', ''lines.txt'']. file_text toy_os toy0 f \<noteq> None"
    using f1 f2 by simp
  have n: "selected_lines toy_os toy0 (grep_opts0\<lparr>opt_n := True\<rparr>) (toy_search (\<lambda>c. c) ''zzz'') [''notes.txt'', ''lines.txt''] = []"
    by code_simp
  from grep_silent_no_match [OF p c re f n] p show ?thesis by simp
qed

section \<open>grep: the limit of matches\<close>

lemma grep_line_limit:
  assumes "0 \<le> m"
  shows "grep_line (grep_opts0\<lparr>opt_m := m\<rparr>) re mf f n l (tm, out) =
     (if re l = None then Inr (tm, out)
      else if tm + 1 > m then Inl (result 0 (stripTrailingNewline out) [])
      else Inr (tm + 1, out @ grep_show mf (f, l)))"
proof -
  have "butlast out = take (length out - 1) out" by (simp add: butlast_conv_take)
  with assms show ?thesis
    by (auto simp: grep_line_def grep_opts0_def matchesPattern_def grep_show_def stripTrailingNewline_def
          split: option.splits)
qed

lemma grep_lines_limit:
  assumes "k \<le> M"
  shows "grep_lines (grep_opts0\<lparr>opt_m := int M\<rparr>) re mf f ls n (int k, out) =
     (let sel = filter (\<lambda>l. re l \<noteq> None) ls in
      if k + length sel > M
      then Inl (result 0 (stripTrailingNewline (out @ concat (map (\<lambda>l. grep_show mf (f, l)) (take (M - k) sel)))) [])
      else Inr (int (k + length sel), out @ concat (map (\<lambda>l. grep_show mf (f, l)) sel)))"
  using assms
proof (induction ls arbitrary: n k out)
  case Nil
  then show ?case by simp
next
  case (Cons l ls)
  show ?case
  proof (cases "re l = None")
    case True
    with Cons show ?thesis by (simp add: grep_line_limit)
  next
    case False
    show ?thesis
    proof (cases "k = M")
      case True
      with False show ?thesis by (auto simp: grep_line_limit)
    next
      case ne: False
      with Cons.prems have lt: "Suc k \<le> M" by simp
      have s: "int k + 1 = int (Suc k)" by simp
      from Cons.IH [OF lt] False ne lt show ?thesis
        by (auto simp: grep_line_limit s Let_def Suc_diff_le take_Cons' simp del: of_nat_Suc)
    qed
  qed
qed

lemma selected_limit_only: "selected (grep_opts0\<lparr>opt_m := m\<rparr>) re l \<longleftrightarrow> re l \<noteq> None"
  by (simp add: selected_def grep_opts0_def)

lemma selected_lines_Cons:
  "file_text os s f = Some t \<Longrightarrow>
   selected_lines os s opts re (f # fs) =
     map (\<lambda>l. (f, l)) (filter (selected opts re) (text_lines t)) @ selected_lines os s opts re fs"
  by (simp add: selected_lines_def files_lines_Cons filter_map o_def)

lemma grep_files_limit:
  assumes "\<forall>f \<in> set files. file_text os s f \<noteq> None" and "k \<le> M"
  shows "grep_files os s (grep_opts0\<lparr>opt_m := int M\<rparr>) re mf files (int k, out) =
     (let sel = selected_lines os s (grep_opts0\<lparr>opt_m := int M\<rparr>) re files in
      if k + length sel > M
      then Inl (result 0 (stripTrailingNewline (out @ concat (map (grep_show mf) (take (M - k) sel)))) [])
      else Inr (int (k + length sel), out @ concat (map (grep_show mf) sel)))"
  using assms
proof (induction files arbitrary: k out)
  case Nil
  then show ?case by (simp add: selected_lines_def files_lines_def)
next
  case (Cons f files)
  from Cons.prems obtain t where t: "file_text os s f = Some t" by auto
  define sf where "sf = filter (\<lambda>l. re l \<noteq> None) (text_lines t)"
  define sr where "sr = selected_lines os s (grep_opts0\<lparr>opt_m := int M\<rparr>) re files"
  have sel: "selected_lines os s (grep_opts0\<lparr>opt_m := int M\<rparr>) re (f # files) = map (\<lambda>l. (f, l)) sf @ sr"
    by (simp add: selected_lines_Cons [OF t] sf_def sr_def selected_limit_only [abs_def])
  have m: "map (grep_show mf) (map (\<lambda>l. (f, l)) xs) = map (\<lambda>l. grep_show mf (f, l)) xs" for xs
    by simp
  have one: "grep_file os s (grep_opts0\<lparr>opt_m := int M\<rparr>) re mf f (int k, out) =
      (if k + length sf > M
       then Inl (result 0 (stripTrailingNewline (out @ concat (map (\<lambda>l. grep_show mf (f, l)) (take (M - k) sf)))) [])
       else Inr (int (k + length sf), out @ concat (map (\<lambda>l. grep_show mf (f, l)) sf)))"
    using grep_lines_limit [OF Cons.prems(2), of re mf f "text_lines t" 1 out]
    by (simp add: grep_file_lines t sf_def Let_def)
  show ?case
  proof (cases "k + length sf > M")
    case True
    then have "take (M - k) (map (\<lambda>l. (f, l)) sf @ sr) = map (\<lambda>l. (f, l)) (take (M - k) sf)"
      by (simp add: take_map)
    with True show ?thesis
      by (simp add: one sel Let_def m del: map_map)
  next
    case False
    then have le: "k + length sf \<le> M" by simp
    have tk: "take (M - k) (map (\<lambda>l. (f, l)) sf @ sr) = map (\<lambda>l. (f, l)) sf @ take (M - (k + length sf)) sr"
      using le by simp
    have ih: "grep_files os s (grep_opts0\<lparr>opt_m := int M\<rparr>) re mf files
                (int (k + length sf), out @ concat (map (\<lambda>l. grep_show mf (f, l)) sf)) =
      (if k + length sf + length sr > M
       then Inl (result 0 (stripTrailingNewline ((out @ concat (map (\<lambda>l. grep_show mf (f, l)) sf))
                    @ concat (map (grep_show mf) (take (M - (k + length sf)) sr)))) [])
       else Inr (int (k + length sf + length sr),
                 (out @ concat (map (\<lambda>l. grep_show mf (f, l)) sf)) @ concat (map (grep_show mf) sr)))"
      using Cons.IH [OF _ le, of "out @ concat (map (\<lambda>l. grep_show mf (f, l)) sf)"] Cons.prems(1)
      by (simp add: Let_def sr_def)
    from False show ?thesis
      by (simp add: one ih sel Let_def tk m add.assoc del: map_map of_nat_add)
  qed
qed

lemma grep_parse_limit:
  assumes "stoi 10 num = Inr m" and "\<not> first_is (CHR ''-'') pattern" and "files \<noteq> []"
  shows "grep_parse (''-m'' # num # pattern # files) = Inr (grep_opts0\<lparr>opt_m := m\<rparr>, pattern, files)"
proof -
  from assms(3) obtain f fs where "files = f # fs" by (cases files) auto
  with assms(1,2) show ?thesis
    by (cases pattern) (simp_all add: grep_parse_def first_is_def)
qed

text \<open>
  C1, as the code has it. With \<^verbatim>\<open>-m m\<close> as the only flag, \<^verbatim>\<open>m\<close> not negative, a pattern
  that compiles and files that open and hold more than \<^verbatim>\<open>m\<close> matching lines in all, the
  result is status 0 and the output is exactly the first \<^verbatim>\<open>m\<close> matching lines, each
  preceded by the name of its file when there are several files, joined by newlines.
  \<^verbatim>\<open>-m\<close> and \<^verbatim>\<open>-c\<close> cannot be given together: in either order the second flag is
  refused with \<^verbatim>\<open>grep: only one flag can be used at a time\<close>.
\<close>

theorem grep_limit_first_lines:
  assumes "stoi 10 num = Inr m" and "0 \<le> m"
      and "\<not> first_is (CHR ''-'') pattern" and "files \<noteq> []"
      and "os_regex os False pattern = Some re"
      and "\<forall>f \<in> set files. file_text os s f \<noteq> None"
      and "nat m < length (selected_lines os s (grep_opts0\<lparr>opt_m := m\<rparr>) re files)"
  shows "grepCommand os s (''-m'' # num # pattern # files) =
           (Returned (result 0 (stripTrailingNewline (concat (map (grep_show (1 < length files))
              (take (nat m) (selected_lines os s (grep_opts0\<lparr>opt_m := m\<rparr>) re files))))) []), s)
       \<and> grepCommand os s (''-m'' # num # ''-c'' # rest) =
           (Returned (result 1 [] ''grep: only one flag can be used at a time''), s)
       \<and> grepCommand os s (''-c'' # ''-m'' # rest) =
           (Returned (result 1 [] ''grep: only one flag can be used at a time''), s)"
proof -
  obtain M where M: "m = int M" using assms(2) by (metis nat_0_le)
  have p: "grep_parse (''-m'' # num # pattern # files) = Inr (grep_opts0\<lparr>opt_m := m\<rparr>, pattern, files)"
    using assms(1,3,4) by (rule grep_parse_limit)
  have run: "grep_files os s (grep_opts0\<lparr>opt_m := int M\<rparr>) re (1 < length files) files (0, []) =
      Inl (result 0 (stripTrailingNewline (concat (map (grep_show (1 < length files))
              (take M (selected_lines os s (grep_opts0\<lparr>opt_m := int M\<rparr>) re files))))) [])"
    using grep_files_limit [OF assms(6), of 0 M re "1 < length files" "[]"] assms(7)
    by (simp add: M Let_def)
  have a: "grepCommand os s (''-m'' # num # pattern # files) =
           (Returned (result 0 (stripTrailingNewline (concat (map (grep_show (1 < length files))
              (take (nat m) (selected_lines os s (grep_opts0\<lparr>opt_m := m\<rparr>) re files))))) []), s)"
    using assms(5) run
    by (simp add: grepCommand_def p grep_run_def grep_pattern_def grep_opts0_def M)
  have b: "grepCommand os s (''-m'' # num # ''-c'' # rest) =
           (Returned (result 1 [] ''grep: only one flag can be used at a time''), s)"
    using assms(1) by (simp add: grepCommand_def grep_parse_def first_is_def)
  have c: "grepCommand os s (''-c'' # ''-m'' # rest) =
           (Returned (result 1 [] ''grep: only one flag can be used at a time''), s)"
    by (simp add: grepCommand_def grep_parse_def first_is_def)
  from a b c show ?thesis by (intro conjI)
qed


theorem grep_limit_first_lines_witness:
  "stoi 10 ''2'' = Inr 2
   \<and> length (selected_lines toy_os toy0 (grep_opts0\<lparr>opt_m := 2\<rparr>) (toy_search (\<lambda>c. c) ''foo'') [''lines.txt'', ''notes.txt'']) = 3
   \<and> grepCommand toy_os toy0 [''-m'', ''2'', ''foo'', ''lines.txt'', ''notes.txt'']
       = (Returned (result 0 (''notes.txt:foo one'' @ [NL] @ ''notes.txt:foo two'') []), toy0)"
proof -
  have n: "stoi 10 ''2'' = Inr 2" by code_simp
  have re: "os_regex toy_os False ''foo'' = Some (toy_search (\<lambda>c. c) ''foo'')"
    by (simp add: toy_os_def toy_regex_def)
  have f1: "file_text toy_os toy0 ''notes.txt'' \<noteq> None" by code_simp
  have f2: "file_text toy_os toy0 ''lines.txt'' \<noteq> None" by code_simp
  have f: "\<forall>f \<in> set [''lines.txt'', ''notes.txt'']. file_text toy_os toy0 f \<noteq> None"
    using f1 f2 by simp
  have sel: "selected_lines toy_os toy0 (grep_opts0\<lparr>opt_m := 2\<rparr>) (toy_search (\<lambda>c. c) ''foo'') [''lines.txt'', ''notes.txt'']
             = [(''notes.txt'', ''foo one''), (''notes.txt'', ''foo two''), (''notes.txt'', ''a foo three'')]"
    by code_simp
  have more: "nat 2 < length (selected_lines toy_os toy0 (grep_opts0\<lparr>opt_m := 2\<rparr>) (toy_search (\<lambda>c. c) ''foo'') [''lines.txt'', ''notes.txt''])"
    by (simp add: sel)
  have d: "\<not> first_is (CHR ''-'') ''foo''" by (simp add: first_is_def)
  have out: "stripTrailingNewline (concat (map (grep_show (1 < length [''lines.txt'', ''notes.txt'']))
               (take (nat 2) [(''notes.txt'', ''foo one''), (''notes.txt'', ''foo two''), (''notes.txt'', ''a foo three'')])))
             = ''notes.txt:foo one'' @ [NL] @ ''notes.txt:foo two''"
    by (simp add: grep_show_def stripTrailingNewline_def numeral_2_eq_2)
  from grep_limit_first_lines [OF n _ d _ re f more] n sel out show ?thesis by simp
qed

text \<open>
  The claim as it was stated, with \<^verbatim>\<open>-c\<close> next to \<^verbatim>\<open>-m 2\<close> on a file of three matching
  lines: the count 2 is not what comes back.
\<close>

theorem grep_limit_with_count_counterexample:
  "length (selected_lines toy_os toy0 (grep_opts0\<lparr>opt_m := 2, opt_c := True\<rparr>) (toy_search (\<lambda>c. c) ''foo'') [''notes.txt'']) = 3
   \<and> grepCommand toy_os toy0 [''-m'', ''2'', ''-c'', ''foo'', ''notes.txt'']
       = (Returned (result 1 [] ''grep: only one flag can be used at a time''), toy0)
   \<and> fst (grepCommand toy_os toy0 [''-m'', ''2'', ''-c'', ''foo'', ''notes.txt'']) \<noteq> Returned (result 0 ''2'' [])"
  by code_simp

section \<open>Every handler: one channel\<close>

lemma one_channel_result [simp]:
  "one_channel (result 0 out [])" "one_channel (result 1 [] err)"
  by (simp_all add: one_channel_def result_def)

lemma help_shape: "helpCommand os s args = (Returned r, s') \<Longrightarrow> one_channel r"
  by (auto simp: helpCommand_def split: if_splits)

lemma echo_shape: "echoCommand os s args = (Returned r, s') \<Longrightarrow> one_channel r"
  by (auto simp: echoCommand_def)

lemma pause_shape: "pauseCommand os s args = (Returned r, s') \<Longrightarrow> one_channel r"
  by (auto simp: pauseCommand_def split: if_splits)

lemma ls_entries_shape:
  "ls_entries os s a b c p names out = Inl r \<Longrightarrow> one_channel r"
  by (induction names arbitrary: out) (auto split: if_splits sum.splits)

lemma ls_paths_shape: "one_channel (ls_paths os s a b c many ps out)"
  by (induction ps arbitrary: out) (auto split: sum.splits dest: ls_entries_shape)

lemma ls_shape: "lsCommand os s args = (Returned r, s') \<Longrightarrow> one_channel r"
  by (auto simp: lsCommand_def Let_def ls_paths_shape split: sum.splits prod.splits)

lemma dir_shape: "dirCommand os s args = (Returned r, s') \<Longrightarrow> one_channel r"
  by (simp add: dirCommand_def ls_shape)

lemma cd_shape: "cdCommand os s args = (Returned r, s') \<Longrightarrow> one_channel r"
  by (auto simp: cdCommand_def Let_def split: if_splits prod.splits option.splits)

lemma rmdir_p_loop_shape: "rmdir_p_loop os s p = (r, s') \<Longrightarrow> one_channel r"
proof (induction os s p arbitrary: r s' rule: rmdir_p_loop.induct)
  case (1 os s path)
  show ?case
  proof (cases "path = []")
    case True
    with "1.prems" show ?thesis by (subst (asm) rmdir_p_loop.simps) auto
  next
    case ne: False
    obtain x y where rm: "os_rmdir os s path = (x, y)" by (cases "os_rmdir os s path")
    show ?thesis
    proof (cases x)
      case (Some e)
      with ne rm "1.prems" show ?thesis by (subst (asm) rmdir_p_loop.simps) auto
    next
      case None
      show ?thesis
      proof (cases "find_last_of ''/'' path")
        case n: None
        with ne rm None "1.prems" show ?thesis by (subst (asm) rmdir_p_loop.simps) auto
      next
        case (Some pos)
        show ?thesis
        proof (cases "take pos path = [] \<or> take pos path = ''/''")
          case True
          with ne rm None Some "1.prems" show ?thesis by (subst (asm) rmdir_p_loop.simps) auto
        next
          case False
          with ne rm None Some "1.prems" have "rmdir_p_loop os y (take pos path) = (r, s')"
            by (subst (asm) rmdir_p_loop.simps) auto
          from "1.IH" [OF ne rm [symmetric] None Some False this] show ?thesis .
        qed
      qed
    qed
  qed
qed

lemma rmdir_shape: "rmdirCommand os s args = (Returned r, s') \<Longrightarrow> one_channel r"
  by (auto simp: rmdirCommand_def split: if_splits prod.splits option.splits dest: rmdir_p_loop_shape)


lemma touch_shape: "touchCommand os s args = (Returned r, s') \<Longrightarrow> one_channel r"
  by (auto simp: touchCommand_def Let_def split: if_splits prod.splits option.splits sum.splits)

lemma cp_one_shape: "cp_one os s dest d src = (Some r, s') \<Longrightarrow> one_channel r"
  by (auto simp: cp_one_def Let_def split: if_splits prod.splits option.splits sum.splits)

lemma cp_sources_shape: "cp_sources os s dest d srcs = (r, s') \<Longrightarrow> one_channel r"
  by (induction srcs arbitrary: s) (auto split: prod.splits option.splits dest: cp_one_shape)

lemma cp_shape: "cpCommand os s args = (Returned r, s') \<Longrightarrow> one_channel r"
  by (auto simp: cpCommand_def Let_def split: if_splits prod.splits dest: cp_sources_shape)

lemma chown_files_shape: "chown_files os s u fs = (r, s') \<Longrightarrow> one_channel r"
  by (induction fs arbitrary: s) (auto split: prod.splits option.splits sum.splits)

lemma chown_shape: "chownCommand os s args = (Returned r, s') \<Longrightarrow> one_channel r"
  by (auto simp: chownCommand_def split: if_splits prod.splits option.splits dest: chown_files_shape)

lemma grep_line_shape: "grep_line opts re mf f n l st = Inl r \<Longrightarrow> one_channel r"
  by (auto simp: grep_line_def Let_def split: if_splits prod.splits)

lemma grep_drain_shape: "grep_drain opts re mf f b n st = Inl r \<Longrightarrow> one_channel r"
proof (induction opts re mf f b n st rule: grep_drain.induct)
  case (1 opts re mf f b n st)
  from "1.prems" show ?case
    by (subst (asm) grep_drain.simps)
       (auto split: if_splits sum.splits dest: "1.IH" grep_line_shape)
qed

lemma grep_chunks_shape: "grep_chunks opts re mf f chunks b n st = Inl r \<Longrightarrow> one_channel r"
  by (induction chunks arbitrary: b n st) (auto split: sum.splits prod.splits dest: grep_drain_shape)

lemma grep_file_shape: "grep_file os s opts re mf f st = Inl r \<Longrightarrow> one_channel r"
  by (auto simp: grep_file_def split: sum.splits prod.splits if_splits dest: grep_chunks_shape grep_line_shape)

lemma grep_files_shape: "grep_files os s opts re mf fs st = Inl r \<Longrightarrow> one_channel r"
  by (induction fs arbitrary: st) (auto split: sum.splits dest: grep_file_shape)

lemma grep_run_shape: "one_channel (grep_run os s opts pattern files)"
  by (auto simp: grep_run_def split: option.splits sum.splits dest: grep_files_shape)

lemma grep_flags_shape: "grep_flags args n opts = Inl (Returned r) \<Longrightarrow> one_channel r"
proof (induction args n opts rule: grep_flags.induct)
  case (1 flagCount opts)
  then show ?case by simp
next
  case (2 flag rest flagCount opts)
  have f: "first_is (CHR ''-'') flag"
    using "2.prems" by (auto split: if_splits)
  show ?case
  proof (cases "flagCount + 1 > 1")
    case True
    with f "2.prems" show ?thesis by auto
  next
    case z: False
    show ?thesis
    proof (cases "flag = ''-m''")
      case True
      show ?thesis
      proof (cases rest)
        case Nil
        with True f z "2.prems" show ?thesis by auto
      next
        case (Cons num rest')
        show ?thesis
        proof (cases "stoi 10 num")
          case (Inl ex)
          with True Cons f z "2.prems" show ?thesis by auto
        next
          case (Inr m)
          with True Cons f z "2.prems"
          have "grep_flags rest' (flagCount + 1) (opts\<lparr>opt_m := m\<rparr>) = Inl (Returned r)"
            by auto
          with True Cons Inr f z show ?thesis
            by (intro "2.IH"(7) [of num rest' m]) auto
        qed
      qed
    next
      case False
      from False f z "2.prems" "2.IH"(1-6) show ?thesis
        by (auto split: if_splits)
    qed
  qed
qed

lemma grep_shape: "grepCommand os s args = (Returned r, s') \<Longrightarrow> one_channel r"
proof (cases "grep_parse args")
  case (Inl out)
  then have "out = Returned r" "s' = s" if "grepCommand os s args = (Returned r, s')"
    using that by (auto simp: grepCommand_def)
  moreover assume "grepCommand os s args = (Returned r, s')"
  ultimately have "grep_parse args = Inl (Returned r)" using Inl by simp
  then show ?thesis
    by (auto simp: grep_parse_def split: if_splits sum.splits prod.splits list.splits dest: grep_flags_shape)
next
  case (Inr x)
  moreover assume "grepCommand os s args = (Returned r, s')"
  ultimately show ?thesis
    by (cases x) (auto simp: grepCommand_def grep_run_shape)
qed


lemma quit_shape: "quitCommand os s args = (Returned r, s') \<Longrightarrow> one_channel r"
  by (auto simp: quitCommand_def split: if_splits)

lemma clr_shape: "clrCommand os s args = (Returned r, s') \<Longrightarrow> one_channel r"
  by (auto simp: clrCommand_def split: if_splits)

lemma pwd_shape: "pwdCommand os s args = (Returned r, s') \<Longrightarrow> one_channel r"
  by (auto simp: pwdCommand_def split: if_splits option.splits)

lemma environ_shape: "environCommand os s args = (Returned r, s') \<Longrightarrow> one_channel r"
  by (auto simp: environCommand_def split: if_splits)

lemma cat_files_shape: "one_channel (cat_files os s fs out)"
  by (induction fs arbitrary: out) (auto split: sum.splits prod.splits option.splits)

lemma cat_shape: "catCommand os s args = (Returned r, s') \<Longrightarrow> one_channel r"
  by (auto simp: catCommand_def cat_files_shape split: if_splits)

lemma wc_files_shape: "one_channel (wc_files os s cl cw cc fs out)"
  by (induction fs arbitrary: out) (auto simp: Let_def split: sum.splits prod.splits option.splits)

lemma wc_shape: "wcCommand os s args = (Returned r, s') \<Longrightarrow> one_channel r"
  by (auto simp: wcCommand_def Let_def wc_files_shape split: if_splits prod.splits)

lemma mkdir_p_chars_shape: "mkdir_p_chars os s partial rest = (Some r, s') \<Longrightarrow> one_channel r"
  by (induction rest arbitrary: s partial)
     (auto simp: mkdir_error_def split: if_splits prod.splits option.splits)

lemma mkdir_paths_shape: "mkdir_paths os s rc ps = (r, s') \<Longrightarrow> one_channel r"
  by (induction ps arbitrary: s)
     (auto simp: mkdir_error_def split: if_splits prod.splits option.splits dest: mkdir_p_chars_shape)

lemma mkdir_shape: "mkdirCommand os s args = (Returned r, s') \<Longrightarrow> one_channel r"
  by (auto simp: mkdirCommand_def split: if_splits prod.splits sum.splits dest: mkdir_paths_shape)

lemma mv_copy_shape: "mv_copy os s src dest = (r, s') \<Longrightarrow> one_channel r"
  by (auto simp: mv_copy_def split: prod.splits option.splits sum.splits)

lemma mv_shape: "mvCommand os s args = (Returned r, s') \<Longrightarrow> one_channel r"
  by (auto simp: mvCommand_def Let_def split: if_splits prod.splits option.splits dest: mv_copy_shape)

lemma chmod_shape: "chmodCommand os s args = (Returned r, s') \<Longrightarrow> one_channel r"
  by (auto simp: chmodCommand_def split: if_splits prod.splits option.splits sum.splits)

lemma rm_flags_shape: "rm_flags args rc = Inl r \<Longrightarrow> one_channel r"
  by (induction args rc rule: rm_flags.induct) (auto split: if_splits)

lemma rm_paths_shape: "rm_paths self os s rc ps = Some (r, s') \<Longrightarrow> one_channel r"
  by (induction ps arbitrary: s)
     (auto split: if_splits prod.splits option.splits sum.splits)

lemma rm_shape: "rmCommand depth os s args = Some (Returned r, s') \<Longrightarrow> one_channel r"
  by (cases depth)
     (auto split: if_splits prod.splits option.splits sum.splits dest: rm_flags_shape rm_paths_shape)

text \<open>
  C9. Whatever the arguments and the system, a result that a handler returns has status 0
  and an empty error, or status 1 and an empty output: never both output and error.
\<close>

theorem handlers_one_channel:
  assumes "h \<in> set (handlers depth)" and "h os s args = Some (Returned r, s')"
  shows "(status r = 0 \<longrightarrow> error r = []) \<and> (status r = 1 \<longrightarrow> output r = []) \<and> (status r = 0 \<or> status r = 1)"
proof -
  have "one_channel r"
    using assms unfolding handlers_def
    by (auto dest: help_shape echo_shape pause_shape ls_shape dir_shape cd_shape rmdir_shape touch_shape
          cp_shape chown_shape grep_shape quit_shape clr_shape pwd_shape environ_shape cat_shape wc_shape
          mkdir_shape mv_shape chmod_shape rm_shape)
  then show ?thesis by (auto simp: one_channel_def)
qed


theorem handlers_one_channel_witness:
  "lsCommand toy_os toy0 [''-x''] = (Returned (result 1 [] (''ls: invalid flag -- '' @ q ''-x'')), toy0)
   \<and> output (result 1 [] (''ls: invalid flag -- '' @ q ''-x'')) = []
   \<and> rmCommand 5 toy_os toy_abc [''-r'', ''a''] = Some (Returned (result 0 [] []), toy0)
   \<and> error (result 0 [] []) = []"
proof -
  have a: "lsCommand toy_os toy0 [''-x''] = (Returned (result 1 [] (''ls: invalid flag -- '' @ q ''-x'')), toy0)"
    by code_simp
  have b: "rmCommand 5 toy_os toy_abc [''-r'', ''a''] = Some (Returned (result 0 [] []), toy0)"
    by code_simp
  have ma: "(\<lambda>os s args. Some (lsCommand os s args)) \<in> set (handlers 5 :: (toy os \<Rightarrow> toy \<Rightarrow> string list \<Rightarrow> (outcome \<times> toy) option) list)"
    by (simp add: handlers_def)
  have mb: "rmCommand 5 \<in> set (handlers 5 :: (toy os \<Rightarrow> toy \<Rightarrow> string list \<Rightarrow> (outcome \<times> toy) option) list)"
    by (simp add: handlers_def)
  have a': "(\<lambda>os s args. Some (lsCommand os s args)) toy_os toy0 [''-x'']
              = Some (Returned (result 1 [] (''ls: invalid flag -- '' @ q ''-x'')), toy0)"
    using a by simp
  from handlers_one_channel [OF ma a'] handlers_one_channel [OF mb b] a b show ?thesis
    by (simp add: result_def)
qed

end
